theory Spec2Isabelle
  imports Main "HOL-Library.Monad_Syntax"
begin

section \<open>JavaScript values\<close>

text \<open>
  The launch pipeline of NadLabs is TypeScript. This theory embeds the parts of it that
  the specification talks about: the Nad.fun service functions, the forwarding relay,
  and the packing, submitting, persisting and resetting operations of the builder
  component.

  A JavaScript string is a sequence of UTF-16 code units. The model writes it as a
  \<open>string\<close>, one \<open>char\<close> for each code unit, which covers the code units below 256;
  \<open>length\<close> is then the \<open>.length\<close> of the source. Numbers are integers: the values the
  pipeline computes with are \<open>bigint\<close>s and small counters.
\<close>

datatype json =
    JNull
  | JBool bool
  | JNum int
  | JStr string
  | JArr "json list"
  | JObj "(string \<times> json) list"

text \<open>Reading a property: \<open>undefined\<close> (\<open>None\<close>) on anything that is not an object
  holding the key.\<close>

fun get_field :: "string \<Rightarrow> json \<Rightarrow> json option" where
  "get_field k (JObj kvs) = map_of kvs k"
| "get_field k _ = None"

text \<open>Optional chaining \<open>x?.k\<close>, on a value that may be \<open>undefined\<close>.\<close>

fun opt_field :: "string \<Rightarrow> json option \<Rightarrow> json option" where
  "opt_field k None = None"
| "opt_field k (Some j) = get_field k j"

fun truthy :: "json \<Rightarrow> bool" where
  "truthy JNull = False"
| "truthy (JBool b) = b"
| "truthy (JNum n) = (n \<noteq> 0)"
| "truthy (JStr s) = (s \<noteq> [])"
| "truthy (JArr xs) = True"
| "truthy (JObj kvs) = True"

fun truthy_opt :: "json option \<Rightarrow> bool" where
  "truthy_opt None = False"
| "truthy_opt (Some j) = truthy j"

text \<open>An object literal: a property whose value is \<open>undefined\<close> reads as absent, and
  \<open>JSON.stringify\<close> leaves it out.\<close>

definition obj :: "(string \<times> json option) list \<Rightarrow> json" where
  "obj kvs = JObj (List.map_filter (\<lambda>(k, v). map_option (Pair k) v) kvs)"

subsection \<open>Strings\<close>

definition is_js_whitespace :: "char \<Rightarrow> bool" where
  "is_js_whitespace c = (of_char c \<in> set [9, 10, 11, 12, 13, 32, 160 :: nat])"

definition js_trim :: "string \<Rightarrow> string" where
  "js_trim s = rev (dropWhile is_js_whitespace (rev (dropWhile is_js_whitespace s)))"

definition startsWith :: "string \<Rightarrow> string \<Rightarrow> bool" where
  "startsWith s p = (take (length p) s = p)"

definition endsWith :: "string \<Rightarrow> string \<Rightarrow> bool" where
  "endsWith s p = (length p \<le> length s \<and> drop (length s - length p) s = p)"

text \<open>The decimal digits of a \<open>bigint\<close>, as \<open>toString()\<close> gives them.\<close>

fun show_nat :: "nat \<Rightarrow> string" where
  "show_nat n =
     (if n < 10 then [''0123456789'' ! n]
      else show_nat (n div 10) @ [''0123456789'' ! (n mod 10)])"

declare show_nat.simps [simp del]

definition show_int :: "int \<Rightarrow> string" where
  "show_int i = (if i < 0 then CHR ''-'' # show_nat (nat (- i)) else show_nat (nat i))"

text \<open>\<open>String(v)\<close> and the conversion a template literal applies.\<close>

fun js_String :: "json \<Rightarrow> string"
and js_join :: "json list \<Rightarrow> string" where
  "js_String JNull = ''null''"
| "js_String (JBool b) = (if b then ''true'' else ''false'')"
| "js_String (JNum n) = show_int n"
| "js_String (JStr s) = s"
| "js_String (JArr xs) = js_join xs"
| "js_String (JObj kvs) = ''[object Object]''"
| "js_join [] = ''''"
| "js_join [x] = (if x = JNull then '''' else js_String x)"
| "js_join (x # y # ys) = (if x = JNull then '''' else js_String x) @ '','' @ js_join (y # ys)"

subsection \<open>Errors and effects\<close>

text \<open>A thrown value: the error's class and its \<open>message\<close>.\<close>

datatype js_error =
    Error string
  | TypeError string
  | ReferenceError string
  | SyntaxError string

fun message :: "js_error \<Rightarrow> string" where
  "message (Error m) = m"
| "message (TypeError m) = m"
| "message (ReferenceError m) = m"
| "message (SyntaxError m) = m"

text \<open>
  An asynchronous computation of the source: the effects it performs, in order, and how
  it ends, with a thrown error (\<open>Inl\<close>) or a result (\<open>Inr\<close>). The effects are the
  lines passed to \<open>addToLog\<close>, the state updates of the component, and the calls that
  leave the page.
\<close>

datatype network = Testnet | Mainnet

record blob =
  blob_type :: string
  blob_bytes :: string

datatype body = BlobBody blob | JsonBody json | NoBody

record request =
  url :: string
  http_method :: string
  content_type :: string
  req_body :: body

record http_response =
  ok :: bool
  statusText :: string
  json_body :: "json option"

record write_request =
  w_address :: string
  w_functionName :: string
  w_args :: json
  w_value :: int
  w_chainId :: int
  w_account :: "string option"

datatype effect =
    Log string
  | SetTxHash string
  | SetPackedLaunch json
  | Fetch request
  | ReadContract string string "int list"
  | RequestAddresses
  | EthRequestAccounts
  | Rasterize blob nat
  | WriteContract write_request
  | WaitForTransactionReceipt string

type_synonym 'a io = "effect list \<times> (js_error + 'a)"

definition ret :: "'a \<Rightarrow> 'a io" where
  "ret a = ([], Inr a)"

definition throw :: "js_error \<Rightarrow> 'a io" where
  "throw e = ([], Inl e)"

definition perform :: "effect \<Rightarrow> (js_error + 'a) \<Rightarrow> 'a io" where
  "perform ev r = ([ev], r)"

text \<open>\<open>await m\<close> followed by the rest of the function: a rejection of \<open>m\<close> ends the
  function there.\<close>

definition await :: "'a io \<Rightarrow> ('a \<Rightarrow> 'b io) \<Rightarrow> 'b io" where
  "await m f =
     (case m of
        (evs, Inl e) \<Rightarrow> (evs, Inl e)
      | (evs, Inr a) \<Rightarrow> (case f a of (evs', r) \<Rightarrow> (evs @ evs', r)))"

section \<open>The environment\<close>

text \<open>
  Everything the code reaches outside itself is a field of the environment: the values
  the wagmi hooks return, the browser (\<open>fetch\<close>, \<open>atob\<close>, the bytes of a string in a \<open>Blob\<close>, the canvas), the library viem
  (\<open>parseEther\<close>, \<open>formatEther\<close>, \<open>decodeEventLog\<close>, the contract reads and writes)
  and the wallet. A call that can reject returns a sum.

  \<open>packLaunchTx\<close> reads an identifier \<open>walletClient\<close> that the component does not
  declare (it imports \<open>usePublicClient\<close>, \<open>useChainId\<close>, \<open>useAccount\<close> and
  \<open>useWriteContract\<close> only). JavaScript resolves such a name in the global scope and
  throws a \<open>ReferenceError\<close> when it is not there either, so the binding is an input:
  \<open>Undeclared\<close>, or \<open>Bound\<close> to a falsy value (\<open>None\<close>) or to a client.
\<close>

record wallet_client =
  requestAddresses :: "(js_error + unit) option"

datatype global_name = Undeclared | Bound "wallet_client option"

datatype raster = LoadFailed | NoContext | NoBlob | Raster blob

record log_entry =
  log_data :: string
  log_topics :: "string list"

record decoded_event =
  eventName :: string
  args_token :: string
  args_pool :: string

record env =
  isConnected :: bool
  address :: "string option"
  chainId :: int
  publicClient :: bool
  walletClient :: global_name
  ethereum_request :: "(js_error + unit) option"
  fetch :: "request \<Rightarrow> js_error + http_response"
  atob :: "string \<Rightarrow> js_error + string"
  decodeURIComponent :: "string \<Rightarrow> js_error + string"
  encodeUtf8 :: "string \<Rightarrow> string"
  rasterize :: "blob \<Rightarrow> nat \<Rightarrow> raster"
  timeString :: string
  parseEther :: "string \<Rightarrow> js_error + int"
  formatEther :: "int \<Rightarrow> string"
  BigInt :: "json \<Rightarrow> js_error + int"
  read_feeConfig :: "string \<Rightarrow> js_error + (int \<times> int \<times> int)"
  read_getInitialBuyAmountOut :: "string \<Rightarrow> int \<Rightarrow> js_error + int"
  writeContractAsync :: "write_request \<Rightarrow> js_error + string"
  waitForTransactionReceipt :: "string \<Rightarrow> js_error + log_entry list"
  decodeEventLog :: "log_entry \<Rightarrow> decoded_event option"

section \<open>The Nad.fun service (services/nadfun)\<close>

definition NADFUN_NETWORK :: network where
  "NADFUN_NETWORK = Mainnet"

fun NADFUN_API_BASE_URL :: "network \<Rightarrow> string" where
  "NADFUN_API_BASE_URL Testnet = ''https://dev-api.nad.fun''"
| "NADFUN_API_BASE_URL Mainnet = ''https://api.nadapp.net''"

record contracts =
  BONDING_CURVE_ROUTER :: string
  LENS :: string
  CURVE :: string

fun NADFUN_CONTRACTS :: "network \<Rightarrow> contracts" where
  "NADFUN_CONTRACTS Testnet =
     \<lparr>BONDING_CURVE_ROUTER = ''0x865054F0F6A288adaAc30261731361EA7E908003'',
      LENS = ''0xB056d79CA5257589692699a46623F901a3BB76f1'',
      CURVE = ''0x1228b0dc9481C11D3071E7A924B794CfB038994e''\<rparr>"
| "NADFUN_CONTRACTS Mainnet =
     \<lparr>BONDING_CURVE_ROUTER = ''0x6F6B8F1a20703309951a5127c45B49b1CD981A22'',
      LENS = ''0x7e78A8DE94f21804F7a17F4E8BF9EC2c872187ea'',
      CURVE = ''0xA7283d07812a02AFB7C09B60f8896bCEA3F90aCE''\<rparr>"

text \<open>\<open>res.json()\<close> rejects when the body is not JSON. Reading a property of \<open>null\<close> or
  \<open>undefined\<close> throws a \<open>TypeError\<close>.\<close>

definition res_json :: "http_response \<Rightarrow> json io" where
  "res_json res =
     (case json_body res of
        None \<Rightarrow> throw (SyntaxError ''Unexpected token in JSON'')
      | Some j \<Rightarrow> ret j)"

fun read_field :: "string \<Rightarrow> json option \<Rightarrow> json option io" where
  "read_field k None = throw (TypeError (''Cannot read properties of undefined (reading '' @ k @ '')''))"
| "read_field k (Some JNull) = throw (TypeError (''Cannot read properties of null (reading '' @ k @ '')''))"
| "read_field k (Some j) = ret (get_field k j)"

text \<open>The payload of a failed upload, \<open>await res.json().catch(() => ({ error: 'Unknown error' }))\<close>,
  and the text \<open>payload.error || res.statusText\<close> that the error message ends with.\<close>

definition error_payload :: "http_response \<Rightarrow> json" where
  "error_payload res =
     (case json_body res of
        None \<Rightarrow> JObj [(''error'', JStr ''Unknown error'')]
      | Some j \<Rightarrow> j)"

definition failure_detail :: "http_response \<Rightarrow> string io" where
  "failure_detail res =
     await (read_field ''error'' (Some (error_payload res))) (\<lambda>e.
       ret (case e of
              None \<Rightarrow> statusText res
            | Some v \<Rightarrow> if truthy v then js_String v else statusText res))"

record upload_image_result =
  imageUri :: "json option"
  isNsfw :: "json option"

definition image_request :: "blob \<Rightarrow> string \<Rightarrow> network \<Rightarrow> request" where
  "image_request img contentType network =
     \<lparr>url = NADFUN_API_BASE_URL network @ ''/metadata/image'',
      http_method = ''POST'', content_type = contentType,
      req_body = BlobBody img\<rparr>"

definition uploadImage :: "env \<Rightarrow> blob \<Rightarrow> string \<Rightarrow> network \<Rightarrow> upload_image_result io" where
  "uploadImage env img contentType network =
     (let rq = image_request img contentType network
      in await (perform (Fetch rq) (fetch env rq)) (\<lambda>res.
           if \<not> ok res then
             await (failure_detail res) (\<lambda>d.
               throw (Error (''Nad.fun image upload failed: '' @ d)))
           else
             await (res_json res) (\<lambda>data.
             await (read_field ''image_uri'' (Some data)) (\<lambda>u.
             await (read_field ''is_nsfw'' (Some data)) (\<lambda>n.
               ret \<lparr>imageUri = u, isNsfw = n\<rparr>)))))"

record upload_metadata_params =
  p_imageUri :: "json option"
  p_name :: string
  p_symbol :: string
  p_description :: string
  p_website :: "string option"
  p_twitter :: "string option"
  p_telegram :: "string option"

record metadata =
  md_name :: "json option"
  md_symbol :: "json option"
  md_description :: "json option"
  md_imageUri :: "json option"
  md_website :: "json option"
  md_twitter :: "json option"
  md_telegram :: "json option"
  md_isNsfw :: "json option"

record upload_metadata_result =
  metadataUri :: "json option"
  metadata :: metadata

text \<open>\<open>x ?? null\<close> on an optional string.\<close>

definition or_null :: "string option \<Rightarrow> json" where
  "or_null v = (case v of None \<Rightarrow> JNull | Some s \<Rightarrow> JStr s)"

definition metadata_request :: "upload_metadata_params \<Rightarrow> network \<Rightarrow> request" where
  "metadata_request params network =
     \<lparr>url = NADFUN_API_BASE_URL network @ ''/metadata/metadata'',
      http_method = ''POST'', content_type = ''application/json'',
      req_body = JsonBody (obj
        [(''image_uri'', p_imageUri params),
         (''name'', Some (JStr (p_name params))),
         (''symbol'', Some (JStr (p_symbol params))),
         (''description'', Some (JStr (p_description params))),
         (''website'', Some (or_null (p_website params))),
         (''twitter'', Some (or_null (p_twitter params))),
         (''telegram'', Some (or_null (p_telegram params)))])\<rparr>"

definition uploadMetadata :: "env \<Rightarrow> upload_metadata_params \<Rightarrow> network \<Rightarrow> upload_metadata_result io" where
  "uploadMetadata env params network =
     (let rq = metadata_request params network
      in await (perform (Fetch rq) (fetch env rq)) (\<lambda>res.
           if \<not> ok res then
             await (failure_detail res) (\<lambda>d.
               throw (Error (''Nad.fun metadata upload failed: '' @ d)))
           else
             await (res_json res) (\<lambda>data.
             await (read_field ''metadata_uri'' (Some data)) (\<lambda>uri.
             let m = get_field ''metadata'' data in
             await (read_field ''name'' m) (\<lambda>nm.
             await (read_field ''symbol'' m) (\<lambda>sy.
             await (read_field ''description'' m) (\<lambda>de.
             await (read_field ''image_uri'' m) (\<lambda>iu.
             await (read_field ''website'' m) (\<lambda>we.
             await (read_field ''twitter'' m) (\<lambda>tw.
             await (read_field ''telegram'' m) (\<lambda>te.
             await (read_field ''is_nsfw'' m) (\<lambda>ns.
               ret \<lparr>metadataUri = uri,
                    metadata = \<lparr>md_name = nm, md_symbol = sy, md_description = de,
                      md_imageUri = iu, md_website = we, md_twitter = tw,
                      md_telegram = te, md_isNsfw = ns\<rparr>\<rparr>))))))))))))"

record mine_salt_params =
  s_creator :: string
  s_name :: string
  s_symbol :: string
  s_metadataUri :: "json option"

record mine_salt_result =
  salt :: "json option"
  salt_address :: "json option"

definition salt_request :: "mine_salt_params \<Rightarrow> network \<Rightarrow> request" where
  "salt_request params network =
     \<lparr>url = NADFUN_API_BASE_URL network @ ''/token/salt'',
      http_method = ''POST'', content_type = ''application/json'',
      req_body = JsonBody (obj
        [(''creator'', Some (JStr (s_creator params))),
         (''name'', Some (JStr (s_name params))),
         (''symbol'', Some (JStr (s_symbol params))),
         (''metadata_uri'', s_metadataUri params)])\<rparr>"

definition mineSalt :: "env \<Rightarrow> mine_salt_params \<Rightarrow> network \<Rightarrow> mine_salt_result io" where
  "mineSalt env params network =
     (let rq = salt_request params network
      in await (perform (Fetch rq) (fetch env rq)) (\<lambda>res.
           if \<not> ok res then
             await (failure_detail res) (\<lambda>d.
               throw (Error (''Nad.fun salt mining failed: '' @ d)))
           else
             await (res_json res) (\<lambda>data.
             await (read_field ''salt'' (Some data)) (\<lambda>sa.
             await (read_field ''address'' (Some data)) (\<lambda>ad.
               ret \<lparr>salt = sa, salt_address = ad\<rparr>)))))"

record fee_config =
  deployFeeAmount :: int
  graduateFeeAmount :: int
  protocolFee :: int

definition getFeeConfig :: "env \<Rightarrow> network \<Rightarrow> fee_config io" where
  "getFeeConfig env network =
     await (perform (ReadContract (CURVE (NADFUN_CONTRACTS network)) ''feeConfig'' [])
              (read_feeConfig env (CURVE (NADFUN_CONTRACTS network)))) (\<lambda>result.
       case result of (r0, r1, r2) \<Rightarrow>
         ret \<lparr>deployFeeAmount = r0, graduateFeeAmount = r1, protocolFee = r2\<rparr>)"

definition getInitialBuyAmountOut :: "env \<Rightarrow> int \<Rightarrow> network \<Rightarrow> int io" where
  "getInitialBuyAmountOut env amountIn network =
     perform (ReadContract (LENS (NADFUN_CONTRACTS network)) ''getInitialBuyAmountOut'' [amountIn])
       (read_getInitialBuyAmountOut env (LENS (NADFUN_CONTRACTS network)) amountIn)"

text \<open>\<open>parseCurveCreateFromReceipt\<close>: the loop over \<open>receipt.logs\<close>. \<open>decodeEventLog\<close>
  throws on a log it cannot decode (\<open>None\<close>); the \<open>catch\<close> is empty and the loop goes on.\<close>

record created =
  token :: string
  pool :: string

fun parseCurveCreateFromReceipt :: "(log_entry \<Rightarrow> decoded_event option) \<Rightarrow> log_entry list \<Rightarrow> created option" where
  "parseCurveCreateFromReceipt dec [] = None"
| "parseCurveCreateFromReceipt dec (l # ls) =
     (case dec l of
        None \<Rightarrow> parseCurveCreateFromReceipt dec ls
      | Some event \<Rightarrow>
          if eventName event = ''CurveCreate''
          then Some \<lparr>token = args_token event, pool = args_pool event\<rparr>
          else parseCurveCreateFromReceipt dec ls)"

section \<open>The builder component (components/BlueprintModal)\<close>

text \<open>
  The component's state is what its \<open>useState\<close> hooks hold. The token form is typed as
  the form's inputs write it (\<open>token_supply\<close> is its field \<open>supply\<close>); \<open>initialBuyMon\<close> may be
  missing (the reset leaves it out).
  \<open>packedLaunch\<close> is \<open>any\<close> in the source: a JSON value, \<open>JNull\<close> for \<open>null\<close>.
\<close>

record token_form =
  name :: string
  symbol :: string
  token_supply :: string
  description :: string
  twitter :: string
  telegram :: string
  website :: string
  initialBuyMon :: "string option"
  customLogoData :: string
  useCustomLogo :: bool
  dryRun :: bool
  taxRatePercent :: int
  fundsPercent :: int
  burnPercent :: int
  holdersPercent :: int
  liquidityPercent :: int
  beneficiaryAddress :: string

record component =
  buildStep :: int
  contractCode :: string
  frontendPrompt :: string
  contractAddress :: "string option"
  logos :: "string list"
  selectedLogo :: int
  tokenForm :: token_form
  packedLaunch :: json
  isPacking :: bool
  buildLogs :: "string list"
  isContractDeploying :: bool
  isMinting :: bool
  txHash :: "string option"

text \<open>The \<open>id\<close> of wagmi's \<open>monadTestnet\<close> chain.\<close>

definition monadTestnet_id :: int where
  "monadTestnet_id = 10143"

text \<open>\<open>!a\<close> on a string that may be \<open>undefined\<close>.\<close>

definition absent :: "string option \<Rightarrow> bool" where
  "absent a = (case a of None \<Rightarrow> True | Some v \<Rightarrow> v = [])"

definition addToLog :: "string \<Rightarrow> unit io" where
  "addToLog msg = perform (Log msg) (Inr ())"

text \<open>A state update takes effect when the handler has run: the handler itself reads
  the state of the render that created it. \<open>addToLog\<close> appends the line with the time in
  front.\<close>

fun apply_effect :: "string \<Rightarrow> component \<Rightarrow> effect \<Rightarrow> component" where
  "apply_effect t s (Log msg) = s\<lparr>buildLogs := buildLogs s @ [''['' @ t @ ''] '' @ msg]\<rparr>"
| "apply_effect t s (SetTxHash h) = s\<lparr>txHash := Some h\<rparr>"
| "apply_effect t s (SetPackedLaunch p) = s\<lparr>packedLaunch := p\<rparr>"
| "apply_effect t s ev = s"

definition apply_effects :: "env \<Rightarrow> component \<Rightarrow> effect list \<Rightarrow> component" where
  "apply_effects env s evs = foldl (apply_effect (timeString env)) s evs"

subsection \<open>Helpers of the component\<close>

definition ensureWalletAuthorized :: "env \<Rightarrow> wallet_client option \<Rightarrow> unit io" where
  "ensureWalletAuthorized env client =
     (case (case client of None \<Rightarrow> None | Some c \<Rightarrow> requestAddresses c) of
        Some r \<Rightarrow> perform RequestAddresses r
      | None \<Rightarrow>
          (case ethereum_request env of
             Some r \<Rightarrow> perform EthRequestAccounts r
           | None \<Rightarrow> ret ()))"

text \<open>The regular expressions of \<open>dataUrlToBlob\<close>. \<open>(.+)$\<close> takes the rest of the
  string, which must be non-empty and hold no line terminator.\<close>

definition dot_plus :: "string \<Rightarrow> bool" where
  "dot_plus d = (d \<noteq> [] \<and> list_all (\<lambda>c. c \<noteq> CHR 0x0A \<and> c \<noteq> CHR 0x0D) d)"

definition match_prefix :: "string \<Rightarrow> string \<Rightarrow> string option" where
  "match_prefix p dataUrl =
     (if startsWith dataUrl p \<and> dot_plus (drop (length p) dataUrl)
      then Some (drop (length p) dataUrl) else None)"

definition base64Match :: "string \<Rightarrow> (string \<times> string) option" where
  "base64Match dataUrl =
     (case filter (\<lambda>mime. match_prefix (''data:'' @ mime @ '';base64,'') dataUrl \<noteq> None)
             [''image/png'', ''image/jpeg'', ''image/jpg'', ''image/svg+xml''] of
        [] \<Rightarrow> None
      | mime # _ \<Rightarrow>
          map_option (Pair mime) (match_prefix (''data:'' @ mime @ '';base64,'') dataUrl))"

definition utf8Match :: "string \<Rightarrow> (string \<times> string) option" where
  "utf8Match dataUrl =
     map_option (Pair ''image/svg+xml'') (match_prefix ''data:image/svg+xml;utf8,'' dataUrl)"

definition dataUrlToBlob :: "env \<Rightarrow> string \<Rightarrow> blob option io" where
  "dataUrlToBlob env dataUrl =
     (case base64Match dataUrl of
        Some (mime, d) \<Rightarrow>
          (case atob env d of
             Inl e \<Rightarrow> throw e
           | Inr bytes \<Rightarrow> ret (Some \<lparr>blob_type = mime, blob_bytes = bytes\<rparr>))
      | None \<Rightarrow>
          (case utf8Match dataUrl of
             Some (mime, d) \<Rightarrow>
               (case decodeURIComponent env d of
                  Inl e \<Rightarrow> throw e
                | Inr decoded \<Rightarrow> ret (Some \<lparr>blob_type = mime, blob_bytes = encodeUtf8 env decoded\<rparr>))
           | None \<Rightarrow> ret None))"

definition svgToPngBlob :: "env \<Rightarrow> blob \<Rightarrow> nat \<Rightarrow> blob io" where
  "svgToPngBlob env svgBlob px =
     perform (Rasterize svgBlob px)
       (case rasterize env svgBlob px of
          LoadFailed \<Rightarrow> Inl (Error ''Failed to load logo image.'')
        | NoContext \<Rightarrow> Inl (Error ''Canvas unavailable.'')
        | NoBlob \<Rightarrow> Inl (Error ''Failed to convert logo to PNG.'')
        | Raster b \<Rightarrow> Inr b)"

subsection \<open>packLaunchTx\<close>

text \<open>Lines 725 to 728: the log line, then the read of \<open>walletClient\<close>.\<close>

definition authorize :: "env \<Rightarrow> unit io" where
  "authorize env =
     await (addToLog ''Authorizing wallet...'') (\<lambda>_.
       case walletClient env of
         Undeclared \<Rightarrow> throw (ReferenceError ''walletClient is not defined'')
       | Bound None \<Rightarrow> ret ()
       | Bound (Some c) \<Rightarrow> ensureWalletAuthorized env (Some c))"

text \<open>\<open>tokenForm.useCustomLogo ? tokenForm.customLogoData : logos[selectedLogo] || ''\<close>.\<close>

definition imageData :: "component \<Rightarrow> string" where
  "imageData s =
     (if useCustomLogo (tokenForm s) then customLogoData (tokenForm s)
      else if 0 \<le> selectedLogo s \<and> nat (selectedLogo s) < length (logos s)
           then logos s ! nat (selectedLogo s)
           else [])"

text \<open>Lines 712 to 738: the guards, the authorization and the logo. \<open>None\<close> is an early
  \<open>return\<close>.\<close>

definition pack_prepare :: "env \<Rightarrow> component \<Rightarrow> blob option io" where
  "pack_prepare env s =
     (if \<not> isConnected env \<or> absent (address env) then
        await (addToLog ''Wallet not connected. Please connect to launch.'') (\<lambda>_. ret None)
      else if \<not> publicClient env then
        await (addToLog ''Public client unavailable.'') (\<lambda>_. ret None)
      else if chainId env \<noteq> monadTestnet_id then
        await (addToLog ''Wrong network. Please switch to Monad Testnet.'') (\<lambda>_. ret None)
      else
        await (authorize env) (\<lambda>_.
        await (dataUrlToBlob env (imageData s)) (\<lambda>rawBlob.
          case rawBlob of
            None \<Rightarrow> await (addToLog ''Invalid logo data.'') (\<lambda>_. ret None)
          | Some rawBlob \<Rightarrow>
              await (if blob_type rawBlob = ''image/svg+xml''
                     then svgToPngBlob env rawBlob 512 else ret rawBlob) (\<lambda>imageBlob.
                ret (Some imageBlob)))))"

text \<open>Lines 751 to 758. \<open>None\<close>: \<open>parseEther\<close> threw and the \<open>catch\<close> returns.\<close>

definition initialBuyAmount_of :: "env \<Rightarrow> token_form \<Rightarrow> int option" where
  "initialBuyAmount_of env tf =
     (let raw = js_trim (case initialBuyMon tf of
                           None \<Rightarrow> ''0''
                         | Some v \<Rightarrow> if v = [] then ''0'' else v)
      in if raw \<noteq> [] then
           (case parseEther env raw of Inl e \<Rightarrow> None | Inr amount \<Rightarrow> Some amount)
         else Some 0)"

fun network_name :: "network \<Rightarrow> string" where
  "network_name Testnet = ''testnet''"
| "network_name Mainnet = ''mainnet''"

definition contracts_json :: "contracts \<Rightarrow> json" where
  "contracts_json c =
     JObj [(''BONDING_CURVE_ROUTER'', JStr (BONDING_CURVE_ROUTER c)),
           (''LENS'', JStr (LENS c)),
           (''CURVE'', JStr (CURVE c))]"

text \<open>Lines 793 to 821: the object \<open>packed\<close>.\<close>

definition packed_launch ::
  "env \<Rightarrow> component \<Rightarrow> blob \<Rightarrow> string \<Rightarrow> string \<Rightarrow> int \<Rightarrow> upload_image_result
     \<Rightarrow> upload_metadata_result \<Rightarrow> mine_salt_result \<Rightarrow> fee_config \<Rightarrow> int \<Rightarrow> json" where
  "packed_launch env s imageBlob trimmedName trimmedSymbol initialBuyAmount imageRes
     metadataRes saltRes feeConfig minTokens =
     (let totalValue = deployFeeAmount feeConfig + initialBuyAmount
      in obj
        [(''network'', Some (JStr (network_name NADFUN_NETWORK))),
         (''apiBaseUrl'', Some (JStr ''nad.fun'')),
         (''contracts'', Some (contracts_json (NADFUN_CONTRACTS NADFUN_NETWORK))),
         (''image'', Some (obj
            [(''imageUri'', imageUri imageRes),
             (''isNsfw'', isNsfw imageRes),
             (''mime'', Some (JStr (blob_type imageBlob))),
             (''bytes'', Some (JNum (int (length (blob_bytes imageBlob)))))])),
         (''metadata'', Some (obj
            [(''metadataUri'', metadataUri metadataRes),
             (''isNsfw'', md_isNsfw (metadata metadataRes))])),
         (''salt'', Some (obj
            [(''salt'', salt saltRes),
             (''predictedTokenAddress'', salt_address saltRes)])),
         (''fee'', Some (obj
            [(''deployFeeAmount'', Some (JStr (show_int (deployFeeAmount feeConfig)))),
             (''deployFeeMon'', Some (JStr (formatEther env (deployFeeAmount feeConfig))))])),
         (''initialBuy'', Some (obj
            [(''amount'', Some (JStr (show_int initialBuyAmount))),
             (''amountMon'', Some (JStr (formatEther env initialBuyAmount)))])),
         (''minTokens'', Some (JStr (show_int minTokens))),
         (''tx'', Some (obj
            [(''to'', Some (JStr (BONDING_CURVE_ROUTER (NADFUN_CONTRACTS NADFUN_NETWORK)))),
             (''function'', Some (JStr ''create'')),
             (''args'', Some (obj
                [(''name'', Some (JStr trimmedName)),
                 (''symbol'', Some (JStr trimmedSymbol)),
                 (''tokenURI'', metadataUri metadataRes),
                 (''amountOut'', Some (JStr (show_int minTokens))),
                 (''salt'', salt saltRes),
                 (''actionId'', Some (JNum 1))])),
             (''value'', Some (JStr (show_int totalValue))),
             (''valueMon'', Some (JStr (formatEther env totalValue)))])),
         (''ui'', Some (obj
            [(''note'', Some (JStr ''Packed tx is ready. Next step: sign & send in your wallet.'')),
             (''supplyFieldNotUsed'', Some (JStr (token_supply (tokenForm s))))]))])"

text \<open>Lines 760 to 824: the network stages, the packed object and its log line.\<close>

definition pack_network :: "env \<Rightarrow> component \<Rightarrow> blob \<Rightarrow> string \<Rightarrow> string \<Rightarrow> int \<Rightarrow> unit io" where
  "pack_network env s imageBlob trimmedName trimmedSymbol initialBuyAmount =
     await (addToLog ''Nad.fun: uploading image...'') (\<lambda>_.
     await (uploadImage env imageBlob (blob_type imageBlob) NADFUN_NETWORK) (\<lambda>imageRes.
     await (addToLog ''Nad.fun: uploading metadata...'') (\<lambda>_.
     await (uploadMetadata env
              \<lparr>p_imageUri = imageUri imageRes, p_name = trimmedName, p_symbol = trimmedSymbol,
               p_description = description (tokenForm s),
               p_website = Some (website (tokenForm s)),
               p_twitter = Some (twitter (tokenForm s)),
               p_telegram = Some (telegram (tokenForm s))\<rparr> NADFUN_NETWORK) (\<lambda>metadataRes.
     await (addToLog ''Nad.fun: mining salt...'') (\<lambda>_.
     await (mineSalt env
              \<lparr>s_creator = (case address env of None \<Rightarrow> [] | Some a \<Rightarrow> a),
               s_name = trimmedName, s_symbol = trimmedSymbol,
               s_metadataUri = metadataUri metadataRes\<rparr> NADFUN_NETWORK) (\<lambda>saltRes.
     await (addToLog ''Reading deploy fee...'') (\<lambda>_.
     await (getFeeConfig env NADFUN_NETWORK) (\<lambda>feeConfig.
     await (if initialBuyAmount > 0 then
              await (addToLog ''Calculating initial buy amount out...'') (\<lambda>_.
                getInitialBuyAmountOut env initialBuyAmount NADFUN_NETWORK)
            else ret 0) (\<lambda>minTokens.
     await (perform (SetPackedLaunch
              (packed_launch env s imageBlob trimmedName trimmedSymbol initialBuyAmount
                 imageRes metadataRes saltRes feeConfig minTokens)) (Inr ())) (\<lambda>_.
       addToLog (''Packed create tx. Value: '' @
         formatEther env (deployFeeAmount feeConfig + initialBuyAmount) @ '' MON'')))))))))))"

text \<open>Lines 740 to 758, then the network stages.\<close>

definition pack_validated :: "env \<Rightarrow> component \<Rightarrow> blob \<Rightarrow> unit io" where
  "pack_validated env s imageBlob =
     (let trimmedName = js_trim (name (tokenForm s))
      in if trimmedName = [] \<or> length trimmedName > 20 then
           addToLog ''Token name is required and must be 1-20 characters.''
         else
           (let trimmedSymbol = js_trim (symbol (tokenForm s))
            in if trimmedSymbol = [] \<or> length trimmedSymbol > 10 then
                 addToLog ''Token symbol is required and must be 1-10 characters.''
               else
                 (case initialBuyAmount_of env (tokenForm s) of
                    None \<Rightarrow>
                      addToLog ''Invalid initial buy amount. Use a number like 0, 0.1, 1.25''
                  | Some initialBuyAmount \<Rightarrow>
                      pack_network env s imageBlob trimmedName trimmedSymbol initialBuyAmount)))"

text \<open>The body of the \<open>try\<close>.\<close>

definition packLaunchTx_body :: "env \<Rightarrow> component \<Rightarrow> unit io" where
  "packLaunchTx_body env s =
     await (pack_prepare env s) (\<lambda>prepared.
       case prepared of
         None \<Rightarrow> ret ()
       | Some imageBlob \<Rightarrow> pack_validated env s imageBlob)"

text \<open>\<open>error?.message || 'Unknown error'\<close>.\<close>

definition message_or_unknown :: "js_error \<Rightarrow> string" where
  "message_or_unknown error = (if message error \<noteq> [] then message error else ''Unknown error'')"

text \<open>\<open>packLaunchTx\<close>: the new state and everything the call did, in order. A call made
  while a pack is in flight does nothing.\<close>

definition packLaunchTx :: "env \<Rightarrow> component \<Rightarrow> component \<times> effect list" where
  "packLaunchTx env s =
     (if isPacking s then (s, [])
      else
        (let m = packLaunchTx_body env s;
             effects = fst m @
               (case snd m of
                  Inl error \<Rightarrow> [Log (''Pack failed: '' @ message_or_unknown error)]
                | Inr u \<Rightarrow> [])
         in ((apply_effects env s effects)\<lparr>isPacking := False\<rparr>, effects)))"

subsection \<open>signAndLaunch\<close>

text \<open>\<open>BigInt(v || '0')\<close> and \<open>String(v)\<close> on a value that may be \<open>undefined\<close>.\<close>

definition bigint_or_zero :: "env \<Rightarrow> json option \<Rightarrow> int io" where
  "bigint_or_zero env v =
     (case BigInt env (case v of
                         None \<Rightarrow> JStr ''0''
                       | Some j \<Rightarrow> if truthy j then j else JStr ''0'') of
        Inl e \<Rightarrow> throw e
      | Inr n \<Rightarrow> ret n)"

definition string_of :: "json option \<Rightarrow> string" where
  "string_of v = (case v of None \<Rightarrow> ''undefined'' | Some j \<Rightarrow> js_String j)"

text \<open>Lines 857 to 882: the arguments of \<open>writeContractAsync\<close>. \<open>None\<close> is the early
  \<open>return\<close> on a packed transaction with missing fields.\<close>

definition launch_request :: "env \<Rightarrow> component \<Rightarrow> write_request option io" where
  "launch_request env s =
     (let tx = get_field ''tx'' (packedLaunch s)
      in await (bigint_or_zero env (opt_field ''value'' tx)) (\<lambda>v.
           let args = opt_field ''args'' tx
           in if \<not> truthy_opt (opt_field ''tokenURI'' args) \<or> \<not> truthy_opt (opt_field ''salt'' args)
              then await (addToLog ''Packed tx missing fields. Re-pack and try again.'') (\<lambda>_.
                     ret None)
              else
                await (addToLog ''Requesting wallet signature...'') (\<lambda>_.
                await (bigint_or_zero env (opt_field ''amountOut'' args)) (\<lambda>amountOut.
                  ret (Some
                    \<lparr>w_address = BONDING_CURVE_ROUTER (NADFUN_CONTRACTS NADFUN_NETWORK),
                     w_functionName = ''create'',
                     w_args = obj
                       [(''name'', Some (JStr (string_of (opt_field ''name'' args)))),
                        (''symbol'', Some (JStr (string_of (opt_field ''symbol'' args)))),
                        (''tokenURI'', Some (JStr (string_of (opt_field ''tokenURI'' args)))),
                        (''amountOut'', Some (JNum amountOut)),
                        (''salt'', opt_field ''salt'' args),
                        (''actionId'', Some (JNum 1))],
                     w_value = v,
                     w_chainId = monadTestnet_id,
                     w_account = address env\<rparr>)))))"

text \<open>Lines 865 to 897: the send, the wait for the receipt, the creation event, and
  the clearing of the packed launch.\<close>

definition submit :: "env \<Rightarrow> write_request \<Rightarrow> unit io" where
  "submit env w =
     await (perform (WriteContract w) (writeContractAsync env w)) (\<lambda>hash.
     await (perform (SetTxHash hash) (Inr ())) (\<lambda>_.
     await (addToLog (''Tx sent: '' @ hash)) (\<lambda>_.
     await (perform (WaitForTransactionReceipt hash) (waitForTransactionReceipt env hash)) (\<lambda>receipt.
     await (case parseCurveCreateFromReceipt (decodeEventLog env) receipt of
              Some created \<Rightarrow>
                await (addToLog (''Token deployed: '' @ token created)) (\<lambda>_.
                  addToLog (''Pool: '' @ pool created))
            | None \<Rightarrow>
                addToLog ''Tx confirmed. Token address not found in logs (CurveCreate).'') (\<lambda>_.
       perform (SetPackedLaunch JNull) (Inr ()))))))"

definition signAndLaunch_body :: "env \<Rightarrow> component \<Rightarrow> unit io" where
  "signAndLaunch_body env s =
     (if \<not> truthy (packedLaunch s) then
        addToLog ''No packed tx found. Pack the tx first.''
      else if \<not> publicClient env then
        addToLog ''Public client unavailable.''
      else if \<not> isConnected env \<or> absent (address env) then
        addToLog ''Wallet not connected. Please connect to launch.''
      else if chainId env \<noteq> monadTestnet_id then
        addToLog ''Wrong network. Please switch to Monad Testnet.''
      else if dryRun (tokenForm s) then
        addToLog ''DRY RUN enabled. Skipping signature + send.''
      else
        await (launch_request env s) (\<lambda>request.
          case request of
            None \<Rightarrow> ret ()
          | Some w \<Rightarrow> submit env w))"

text \<open>\<open>signAndLaunch\<close>: the new state and everything the call did, in order. A call made
  while a submission is in flight does nothing.\<close>

definition signAndLaunch :: "env \<Rightarrow> component \<Rightarrow> component \<times> effect list" where
  "signAndLaunch env s =
     (if isMinting s then (s, [])
      else
        (let m = signAndLaunch_body env s;
             effects = fst m @
               (case snd m of
                  Inl error \<Rightarrow> [Log (''Launch failed: '' @ message_or_unknown error)]
                | Inr u \<Rightarrow> [])
         in ((apply_effects env s effects)\<lparr>isMinting := False\<rparr>, effects)))"

subsection \<open>Persistence\<close>

text \<open>
  \<open>localStorage\<close> maps a key to a text. The component writes \<open>JSON.stringify\<close> of a value
  and reads with \<open>JSON.parse\<close>, so an item is the JSON value its text stands for, or a
  text that does not parse.
\<close>

datatype item = JSON_text json | Other_text

type_synonym storage = "string \<Rightarrow> item option"

record idea =
  idea_id :: string
  title :: string
  tagline :: string
  idea_description :: string

definition buildLogsKey :: "idea \<Rightarrow> string" where
  "buildLogsKey idea = ''nadlabs_builder_logs_'' @ idea_id idea"

definition builderStateKey :: "idea \<Rightarrow> string" where
  "builderStateKey idea = ''nadlabs_builder_state_'' @ idea_id idea"

definition getStoredBuilderState :: "storage \<Rightarrow> idea \<Rightarrow> json option" where
  "getStoredBuilderState st idea =
     (case st (builderStateKey idea) of
        None \<Rightarrow> None
      | Some Other_text \<Rightarrow> None
      | Some (JSON_text j) \<Rightarrow> Some j)"

text \<open>The persist effect (lines 581 to 604) writes \<open>payload\<close>; the effect before it
  (lines 576 to 579) writes the log lines.\<close>

definition tokenForm_json :: "token_form \<Rightarrow> json" where
  "tokenForm_json tf = obj
     [(''name'', Some (JStr (name tf))),
      (''symbol'', Some (JStr (symbol tf))),
      (''supply'', Some (JStr (token_supply tf))),
      (''description'', Some (JStr (description tf))),
      (''twitter'', Some (JStr (twitter tf))),
      (''telegram'', Some (JStr (telegram tf))),
      (''website'', Some (JStr (website tf))),
      (''initialBuyMon'', map_option JStr (initialBuyMon tf)),
      (''customLogoData'', Some (JStr (customLogoData tf))),
      (''useCustomLogo'', Some (JBool (useCustomLogo tf))),
      (''dryRun'', Some (JBool (dryRun tf))),
      (''taxRatePercent'', Some (JNum (taxRatePercent tf))),
      (''fundsPercent'', Some (JNum (fundsPercent tf))),
      (''burnPercent'', Some (JNum (burnPercent tf))),
      (''holdersPercent'', Some (JNum (holdersPercent tf))),
      (''liquidityPercent'', Some (JNum (liquidityPercent tf))),
      (''beneficiaryAddress'', Some (JStr (beneficiaryAddress tf)))]"

definition payload :: "component \<Rightarrow> json" where
  "payload s = JObj
     [(''buildStep'', JNum (buildStep s)),
      (''contractCode'', JStr (contractCode s)),
      (''frontendPrompt'', JStr (frontendPrompt s)),
      (''contractAddress'', or_null (contractAddress s)),
      (''logos'', JArr (map JStr (logos s))),
      (''selectedLogo'', JNum (selectedLogo s)),
      (''tokenForm'', tokenForm_json (tokenForm s)),
      (''packedLaunch'', packedLaunch s)]"

definition persist :: "idea \<Rightarrow> component \<Rightarrow> storage \<Rightarrow> storage" where
  "persist idea s st =
     (st (buildLogsKey idea := Some (JSON_text (JArr (map JStr (buildLogs s))))))
        (builderStateKey idea := Some (JSON_text (payload s)))"

text \<open>
  Reading the stored state back. The state is typed, the stored value is not: a stored
  field whose value the typed state cannot hold (a truthy non-string where the form has
  a string, say) gives \<open>None\<close>. What the persist effect writes is never of that kind.
  \<open>or_text\<close> is \<open>v || d\<close> and \<open>nullish_bool\<close>, \<open>nullish_num\<close> are \<open>v ?? d\<close>.
\<close>

fun or_text :: "json option \<Rightarrow> string \<Rightarrow> string option" where
  "or_text None d = Some d"
| "or_text (Some (JStr v)) d = Some (if v = [] then d else v)"
| "or_text (Some j) d = (if truthy j then None else Some d)"

fun nullish_bool :: "json option \<Rightarrow> bool \<Rightarrow> bool option" where
  "nullish_bool None d = Some d"
| "nullish_bool (Some JNull) d = Some d"
| "nullish_bool (Some (JBool b)) d = Some b"
| "nullish_bool (Some j) d = None"

fun nullish_num :: "json option \<Rightarrow> int \<Rightarrow> int option" where
  "nullish_num None d = Some d"
| "nullish_num (Some JNull) d = Some d"
| "nullish_num (Some (JNum n)) d = Some n"
| "nullish_num (Some j) d = None"

fun strings_of :: "json list \<Rightarrow> string list option" where
  "strings_of [] = Some []"
| "strings_of (JStr v # js) = map_option ((#) v) (strings_of js)"
| "strings_of (j # js) = None"

text \<open>\<open>Array.isArray(v) ? v : []\<close>, into a list of strings.\<close>

definition array_or_empty :: "json option \<Rightarrow> string list option" where
  "array_or_empty v = (case v of Some (JArr js) \<Rightarrow> strings_of js | _ \<Rightarrow> Some [])"

definition restore_tokenForm :: "json option \<Rightarrow> token_form option" where
  "restore_tokenForm tf =
     do {
       nm \<leftarrow> or_text (opt_field ''name'' tf) [];
       sy \<leftarrow> or_text (opt_field ''symbol'' tf) [];
       su \<leftarrow> or_text (opt_field ''supply'' tf) ''1000000000'';
       de \<leftarrow> or_text (opt_field ''description'' tf) [];
       tw \<leftarrow> or_text (opt_field ''twitter'' tf) ''https://x.com/'';
       te \<leftarrow> or_text (opt_field ''telegram'' tf) ''https://t.me/'';
       we \<leftarrow> or_text (opt_field ''website'' tf) ''https://www.com'';
       ib \<leftarrow> or_text (opt_field ''initialBuyMon'' tf) ''0.1'';
       cl \<leftarrow> or_text (opt_field ''customLogoData'' tf) [];
       uc \<leftarrow> nullish_bool (opt_field ''useCustomLogo'' tf) False;
       dr \<leftarrow> nullish_bool (opt_field ''dryRun'' tf) False;
       tr \<leftarrow> nullish_num (opt_field ''taxRatePercent'' tf) 3;
       fp \<leftarrow> nullish_num (opt_field ''fundsPercent'' tf) 100;
       bp \<leftarrow> nullish_num (opt_field ''burnPercent'' tf) 0;
       hp \<leftarrow> nullish_num (opt_field ''holdersPercent'' tf) 0;
       lp \<leftarrow> nullish_num (opt_field ''liquidityPercent'' tf) 0;
       ba \<leftarrow> or_text (opt_field ''beneficiaryAddress'' tf) [];
       Some \<lparr>name = nm, symbol = sy, token_supply = su, description = de, twitter = tw,
             telegram = te, website = we, initialBuyMon = Some ib, customLogoData = cl,
             useCustomLogo = uc, dryRun = dr, taxRatePercent = tr, fundsPercent = fp,
             burnPercent = bp, holdersPercent = hp, liquidityPercent = lp,
             beneficiaryAddress = ba\<rparr>
     }"

text \<open>The log lines of the store (lines 463 to 473 and 561 to 573).\<close>

definition stored_logs :: "storage \<Rightarrow> idea \<Rightarrow> string list option" where
  "stored_logs st idea =
     (case st (buildLogsKey idea) of
        Some (JSON_text (JArr js)) \<Rightarrow> strings_of js
      | _ \<Rightarrow> Some [])"

text \<open>
  The restore effect (lines 503 to 574), on a component that has just mounted. A stored
  value that is falsy takes the \<open>else\<close> branch, whose constants are the defaults of the
  first branch; the initial values of the \<open>useState\<close> hooks (lines 436 to 476) are
  computed by the same expressions.
\<close>

definition restore :: "storage \<Rightarrow> idea \<Rightarrow> component option" where
  "restore st idea =
     (let stored = (case getStoredBuilderState st idea of
                      None \<Rightarrow> None
                    | Some j \<Rightarrow> if truthy j then Some j else None)
      in do {
        lg \<leftarrow> array_or_empty (opt_field ''logos'' stored);
        tf \<leftarrow> restore_tokenForm (opt_field ''tokenForm'' stored);
        bl \<leftarrow> stored_logs st idea;
        Some \<lparr>buildStep = (case opt_field ''buildStep'' stored of Some (JNum n) \<Rightarrow> n | _ \<Rightarrow> 0),
              contractCode = (case opt_field ''contractCode'' stored of Some (JStr v) \<Rightarrow> v | _ \<Rightarrow> []),
              frontendPrompt = (case opt_field ''frontendPrompt'' stored of Some (JStr v) \<Rightarrow> v | _ \<Rightarrow> []),
              contractAddress = (case opt_field ''contractAddress'' stored of Some (JStr v) \<Rightarrow> Some v | _ \<Rightarrow> None),
              logos = lg,
              selectedLogo = (case opt_field ''selectedLogo'' stored of Some (JNum n) \<Rightarrow> n | _ \<Rightarrow> 0),
              tokenForm = tf,
              packedLaunch = (case opt_field ''packedLaunch'' stored of None \<Rightarrow> JNull | Some j \<Rightarrow> j),
              isPacking = False,
              buildLogs = bl,
              isContractDeploying = False,
              isMinting = False,
              txHash = None\<rparr>
      })"

text \<open>
  The effects that follow the mount. At step 2 with no prompt the component asks for
  one (lines 661 to 679); at step 3 it seeds the logos when there are none and fills the
  empty fields of the form (lines 681 to 706). \<open>buildLogoSet\<close> draws the logos from the
  title; the model takes it as a function of the title.
\<close>

datatype generation = GenerateFrontendPrompt | BuildLogoSet string

definition upper_char :: "char \<Rightarrow> char" where
  "upper_char c =
     (let n = (of_char c :: nat)
      in if 97 \<le> n \<and> n \<le> 122
         then (case c of Char b0 b1 b2 b3 b4 b5 b6 b7 \<Rightarrow> Char b0 b1 b2 b3 b4 False b6 b7)
         else c)"

definition is_letter :: "char \<Rightarrow> bool" where
  "is_letter c =
     (let n = (of_char c :: nat) in (65 \<le> n \<and> n \<le> 90) \<or> (97 \<le> n \<and> n \<le> 122))"

text \<open>\<open>a || b\<close> on strings.\<close>

definition or_else :: "string \<Rightarrow> string \<Rightarrow> string" where
  "or_else a b = (if a = [] then b else a)"

definition seed_form :: "idea \<Rightarrow> env \<Rightarrow> token_form \<Rightarrow> token_form" where
  "seed_form idea env prev =
     \<lparr>name = or_else (name prev) (title idea),
      symbol = or_else (symbol prev)
                 (or_else (map upper_char (take 4 (filter is_letter (title idea)))) ''NAD''),
      token_supply = or_else (token_supply prev) ''1000000000'',
      description = or_else (description prev)
                      (or_else (tagline idea) (take 120 (idea_description idea))),
      twitter = or_else (twitter prev) ''https://x.com/'',
      telegram = or_else (telegram prev) ''https://t.me/'',
      website = or_else (website prev) ''https://www.com'',
      initialBuyMon = Some (or_else (case initialBuyMon prev of None \<Rightarrow> [] | Some v \<Rightarrow> v) ''0.1''),
      customLogoData = customLogoData prev,
      useCustomLogo = useCustomLogo prev,
      dryRun = dryRun prev,
      taxRatePercent = taxRatePercent prev,
      fundsPercent = fundsPercent prev,
      burnPercent = burnPercent prev,
      holdersPercent = holdersPercent prev,
      liquidityPercent = liquidityPercent prev,
      beneficiaryAddress = or_else (beneficiaryAddress prev)
                             (case address env of None \<Rightarrow> [] | Some a \<Rightarrow> a)\<rparr>"

definition stage3_effect ::
  "(string \<Rightarrow> string list) \<Rightarrow> idea \<Rightarrow> env \<Rightarrow> component \<Rightarrow> component \<times> generation list" where
  "stage3_effect buildLogoSet idea env s =
     (if buildStep s \<noteq> 3 then (s, [])
      else
        (let s1 = (if logos s = []
                   then s\<lparr>logos := buildLogoSet (title idea), selectedLogo := 0\<rparr>
                   else s)
         in (s1\<lparr>tokenForm := seed_form idea env (tokenForm s)\<rparr>,
             if logos s = [] then [BuildLogoSet (title idea)] else [])))"

definition prompt_effect :: "component \<Rightarrow> generation list" where
  "prompt_effect s =
     (if buildStep s \<noteq> 2 \<or> frontendPrompt s \<noteq> [] then [] else [GenerateFrontendPrompt])"

text \<open>Opening the builder for a concept in a fresh session: the restored state after
  the mount effects, and the generation calls they fired.\<close>

definition reopen ::
  "(string \<Rightarrow> string list) \<Rightarrow> idea \<Rightarrow> env \<Rightarrow> storage \<Rightarrow> (component \<times> generation list) option" where
  "reopen buildLogoSet idea env st =
     map_option
       (\<lambda>s. (fst (stage3_effect buildLogoSet idea env s),
              prompt_effect s @ snd (stage3_effect buildLogoSet idea env s)))
       (restore st idea)"

subsection \<open>handleResetCache\<close>

text \<open>Lines 906 to 939. \<open>address || ''\<close> is the connected account.\<close>

definition reset_form :: "env \<Rightarrow> token_form" where
  "reset_form env =
     \<lparr>name = [], symbol = [], token_supply = ''1000000000'', description = [],
      twitter = [], telegram = [], website = [], initialBuyMon = None,
      customLogoData = [], useCustomLogo = False, dryRun = False,
      taxRatePercent = 3, fundsPercent = 100, burnPercent = 0, holdersPercent = 0,
      liquidityPercent = 0,
      beneficiaryAddress = (case address env of None \<Rightarrow> [] | Some a \<Rightarrow> a)\<rparr>"

definition handleResetCache :: "env \<Rightarrow> idea \<Rightarrow> component \<Rightarrow> storage \<Rightarrow> component \<times> storage" where
  "handleResetCache env idea s st =
     (s\<lparr>buildStep := 0, contractCode := [], frontendPrompt := [], contractAddress := None,
        logos := [], selectedLogo := 0, tokenForm := reset_form env, buildLogs := [],
        isContractDeploying := False, isMinting := False, txHash := None\<rparr>,
      (st (buildLogsKey idea := None)) (builderStateKey idea := None))"

text \<open>The state update renders the component again, and the two persist effects run
  on the new state.\<close>

definition reset_and_persist :: "env \<Rightarrow> idea \<Rightarrow> component \<Rightarrow> storage \<Rightarrow> component \<times> storage" where
  "reset_and_persist env idea s st =
     (let r = handleResetCache env idea s st
      in (fst r, persist idea (fst r) (snd r)))"

subsection \<open>Reading a run\<close>

text \<open>The calls of the Nad.fun service are the \<open>fetch\<close>es and the contract reads; the
  quote is the read of \<open>getInitialBuyAmountOut\<close>.\<close>

fun nadfun_call :: "effect \<Rightarrow> bool" where
  "nadfun_call (Fetch rq) = True"
| "nadfun_call (ReadContract a f xs) = True"
| "nadfun_call ev = False"

fun is_quote :: "effect \<Rightarrow> bool" where
  "is_quote (ReadContract a f xs) = (f = ''getInitialBuyAmountOut'')"
| "is_quote ev = False"

fun sets_packed :: "effect \<Rightarrow> bool" where
  "sets_packed (SetPackedLaunch p) = True"
| "sets_packed ev = False"

fun is_send :: "effect \<Rightarrow> bool" where
  "is_send (WriteContract w) = True"
| "is_send ev = False"

text \<open>Signing or any call that leaves the page.\<close>

fun leaves_page :: "effect \<Rightarrow> bool" where
  "leaves_page (Log msg) = False"
| "leaves_page (SetTxHash h) = False"
| "leaves_page (SetPackedLaunch p) = False"
| "leaves_page ev = True"

fun is_log :: "effect \<Rightarrow> bool" where
  "is_log (Log msg) = True"
| "is_log ev = False"

text \<open>\<open>j.k1.k2\<close>, \<open>undefined\<close> when a step is missing.\<close>

fun get_path :: "string list \<Rightarrow> json \<Rightarrow> json option" where
  "get_path [] j = Some j"
| "get_path (k # ks) j = (case get_field k j of None \<Rightarrow> None | Some v \<Rightarrow> get_path ks v)"

section \<open>The forwarding relay\<close>

text \<open>
  The relay is a Node HTTP server. \<open>process.env\<close> is read when the module loads:
  \<open>RELAY_TARGET\<close> before \<open>loadEnvFile()\<close> runs and \<open>RELAY_ALLOWED_ORIGINS\<close> after it; the
  configuration holds the two values as the module read them. Node gives the request's
  header names in lower case, and \<open>req.url\<close> is the request target (path and query).
\<close>

record relay_config =
  RELAY_TARGET :: "string option"
  RELAY_ALLOWED_ORIGINS :: "string option"

text \<open>\<open>e || d\<close> on an environment variable.\<close>

definition or_default :: "string option \<Rightarrow> string \<Rightarrow> string" where
  "or_default e d = (case e of None \<Rightarrow> d | Some s \<Rightarrow> if s = [] then d else s)"

definition TARGET :: "relay_config \<Rightarrow> string" where
  "TARGET cfg = or_default (RELAY_TARGET cfg) ''https://nad.fun''"

fun js_split :: "char \<Rightarrow> string \<Rightarrow> string list" where
  "js_split c [] = [[]]"
| "js_split c (x # xs) =
     (if x = c then [] # js_split c xs
      else (case js_split c xs of
              [] \<Rightarrow> [[x]]
            | y # ys \<Rightarrow> (x # y) # ys))"

definition allowedOrigins :: "relay_config \<Rightarrow> string list" where
  "allowedOrigins cfg =
     filter (\<lambda>s. s \<noteq> [])
       (map js_trim (js_split CHR '','' (or_default (RELAY_ALLOWED_ORIGINS cfg) [])))"

text \<open>\<open>origin.replace(/^https?:\/\//, '').replace(/\/$/, '')\<close>.\<close>

definition strip_scheme :: "string \<Rightarrow> string" where
  "strip_scheme s =
     (if startsWith s ''http://'' then drop 7 s
      else if startsWith s ''https://'' then drop 8 s
      else s)"

definition strip_trailing_slash :: "string \<Rightarrow> string" where
  "strip_trailing_slash s = (if endsWith s ''/'' then butlast s else s)"

definition getCorsOrigin :: "relay_config \<Rightarrow> string \<Rightarrow> string" where
  "getCorsOrigin cfg origin =
     (if origin = [] then ''*''
      else if allowedOrigins cfg = [] then ''*''
      else
        (let host = strip_trailing_slash (strip_scheme origin)
         in if origin \<in> set (allowedOrigins cfg) \<or> host \<in> set (allowedOrigins cfg)
            then origin
            else []))"

text \<open>An object with string keys, in insertion order: assigning to a key it holds
  replaces the value in place, and a spread assigns the second object's entries.\<close>

fun assign :: "string \<Rightarrow> 'v \<Rightarrow> (string \<times> 'v) list \<Rightarrow> (string \<times> 'v) list" where
  "assign k v [] = [(k, v)]"
| "assign k v (e # es) = (if fst e = k then (k, v) # es else e # assign k v es)"

fun spread :: "(string \<times> 'v) list \<Rightarrow> (string \<times> 'v) list \<Rightarrow> (string \<times> 'v) list" where
  "spread base [] = base"
| "spread base (e # es) = spread (assign (fst e) (snd e) base) es"

text \<open>\<open>toLowerCase\<close>: a capital letter differs from its small letter in one bit.\<close>

definition lower_char :: "char \<Rightarrow> char" where
  "lower_char c =
     (let n = (of_char c :: nat)
      in if (65 \<le> n \<and> n \<le> 90) \<or> (192 \<le> n \<and> n \<le> 222 \<and> n \<noteq> 215)
         then (case c of Char b0 b1 b2 b3 b4 b5 b6 b7 \<Rightarrow> Char b0 b1 b2 b3 b4 True b6 b7)
         else c)"

definition toLowerCase :: "string \<Rightarrow> string" where
  "toLowerCase s = map lower_char s"

record relay_request =
  rq_url :: string
  rq_method :: string
  rq_headers :: "(string \<times> string) list"
  rq_body :: "js_error + string"

datatype payload = Text string | Json json

record relay_response =
  res_status :: int
  res_headers :: "(string \<times> string) list"
  res_body :: payload

definition send :: "relay_config \<Rightarrow> relay_request \<Rightarrow> int \<Rightarrow> payload \<Rightarrow> (string \<times> string) list \<Rightarrow> relay_response" where
  "send cfg req status body headers =
     (let origin = (case map_of (rq_headers req) ''origin'' of None \<Rightarrow> [] | Some v \<Rightarrow> v);
          corsOrigin = getCorsOrigin cfg origin;
          baseHeaders =
            [(''Access-Control-Allow-Headers'', ''Content-Type, Nad-Web-Access''),
             (''Access-Control-Allow-Methods'', ''GET,POST,PUT,DELETE,OPTIONS'')];
          baseHeaders' =
            (if corsOrigin \<noteq> []
             then assign ''Vary'' ''Origin''
                    (assign ''Access-Control-Allow-Origin'' corsOrigin baseHeaders)
             else baseHeaders)
      in \<lparr>res_status = status, res_headers = spread baseHeaders' headers, res_body = body\<rparr>)"

record upstream_request =
  up_url :: string
  up_method :: string
  up_headers :: "(string \<times> string) list"
  up_body :: "string option"

record upstream_response =
  up_status :: int
  up_response_headers :: "(string \<times> string) list"
  up_arrayBuffer :: "js_error + string"

text \<open>\<open>err?.message || String(err)\<close>: an error with an empty message prints as its name.\<close>

fun error_name :: "js_error \<Rightarrow> string" where
  "error_name (Error m) = ''Error''"
| "error_name (TypeError m) = ''TypeError''"
| "error_name (ReferenceError m) = ''ReferenceError''"
| "error_name (SyntaxError m) = ''SyntaxError''"

definition error_text :: "js_error \<Rightarrow> string" where
  "error_text err = (if message err \<noteq> [] then message err else error_name err)"

definition send_error :: "relay_config \<Rightarrow> relay_request \<Rightarrow> js_error \<Rightarrow> relay_response" where
  "send_error cfg req err =
     send cfg req 500 (Json (JObj [(''error'', JStr (error_text err))]))
       [(''Content-Type'', ''application/json'')]"

definition dropped_upstream_headers :: "string list" where
  "dropped_upstream_headers =
     [''content-encoding'', ''content-length'', ''transfer-encoding'',
      ''access-control-allow-origin'', ''access-control-allow-headers'',
      ''access-control-allow-methods'']"

definition resHeaders :: "upstream_response \<Rightarrow> (string \<times> string) list" where
  "resHeaders upstream =
     spread []
       (filter (\<lambda>e. toLowerCase (fst e) \<notin> set dropped_upstream_headers)
          (up_response_headers upstream))"

text \<open>The request handler. The second component lists the requests it made to the
  upstream.\<close>

definition handler ::
  "relay_config \<Rightarrow> (upstream_request \<Rightarrow> js_error + upstream_response) \<Rightarrow> relay_request
     \<Rightarrow> relay_response \<times> upstream_request list" where
  "handler cfg upstream_fetch req =
     (if rq_url req = [] then (send cfg req 404 (Text ''Not found'') [], [])
      else if rq_method req = ''OPTIONS'' then (send cfg req 200 (Text []) [], [])
      else if \<not> startsWith (rq_url req) ''/relay'' then
        (send cfg req 404 (Text ''Not found'') [], [])
      else
        (let upstreamPath = drop 6 (rq_url req);
             url = TARGET cfg @ upstreamPath
         in case (if rq_method req = ''GET'' \<or> rq_method req = ''HEAD'' then Inr None
                  else map_sum id Some (rq_body req)) of
              Inl err \<Rightarrow> (send_error cfg req err, [])
            | Inr body \<Rightarrow>
                (let headers =
                       filter (\<lambda>e. fst e \<noteq> ''host'' \<and> fst e \<noteq> ''origin'' \<and> fst e \<noteq> ''referer'')
                         (rq_headers req);
                     up = \<lparr>up_url = url, up_method = rq_method req, up_headers = headers,
                           up_body = body\<rparr>
                 in case upstream_fetch up of
                      Inl err \<Rightarrow> (send_error cfg req err, [up])
                    | Inr upstream \<Rightarrow>
                        (case up_arrayBuffer upstream of
                           Inl err \<Rightarrow> (send_error cfg req err, [up])
                         | Inr resBody \<Rightarrow>
                             (send cfg req (up_status upstream) (Text resBody)
                                (resHeaders upstream), [up])))))"

section \<open>An example environment\<close>

text \<open>
  Concrete inputs for the examples below. \<open>parseEther\<close>, \<open>formatEther\<close> and \<open>BigInt\<close>
  belong to viem and to the language; the stand-ins here read and print plain decimals
  (\<open>example_parseEther\<close> accepts at most 18 fraction digits and rejects the rest). The
  theorems about the code take the three functions as they come in the environment.
\<close>

definition digit_of :: "char \<Rightarrow> nat option" where
  "digit_of c =
     (let n = (of_char c :: nat) in if 48 \<le> n \<and> n \<le> 57 then Some (n - 48) else None)"

fun nat_of_digits :: "nat \<Rightarrow> string \<Rightarrow> nat option" where
  "nat_of_digits acc [] = Some acc"
| "nat_of_digits acc (c # cs) =
     (case digit_of c of
        None \<Rightarrow> None
      | Some d \<Rightarrow> nat_of_digits (10 * acc + d) cs)"

definition example_parseEther :: "string \<Rightarrow> js_error + int" where
  "example_parseEther s =
     (let negative = (take 1 s = ''-'');
          t = (if negative then drop 1 s else s);
          ip = takeWhile (\<lambda>c. c \<noteq> CHR ''.'') t;
          fp = drop 1 (dropWhile (\<lambda>c. c \<noteq> CHR ''.'') t)
      in case (nat_of_digits 0 ip, nat_of_digits 0 fp) of
           (Some i, Some f) \<Rightarrow>
             if length fp \<le> 18
             then Inr ((if negative then - 1 else 1) *
                       (int i * 10 ^ 18 + int f * 10 ^ (18 - length fp)))
             else Inl (Error ''unsupported'')
         | _ \<Rightarrow> Inl (Error ''Number is not a valid decimal number.''))"

definition example_formatEther :: "int \<Rightarrow> string" where
  "example_formatEther v =
     (let display = show_nat (nat \<bar>v\<bar>);
          padded = replicate (18 - length display) CHR ''0'' @ display;
          ip = take (length padded - 18) padded;
          fp = rev (dropWhile (\<lambda>c. c = CHR ''0'') (rev (drop (length padded - 18) padded)))
      in (if v < 0 then ''-'' else []) @ (if ip = [] then ''0'' else ip) @
         (if fp = [] then [] else ''.'' @ fp))"

definition example_BigInt :: "json \<Rightarrow> js_error + int" where
  "example_BigInt j =
     (case j of
        JNum n \<Rightarrow> Inr n
      | JStr s \<Rightarrow>
          (let t = js_trim s; negative = (take 1 t = ''-'');
               ds = (if negative then drop 1 t else t)
           in case nat_of_digits 0 ds of
                Some n \<Rightarrow> if negative \<and> ds = [] then Inl (SyntaxError ''Cannot convert to a BigInt'')
                          else Inr (if negative then - int n else int n)
              | None \<Rightarrow> Inl (SyntaxError ''Cannot convert to a BigInt''))
      | _ \<Rightarrow> Inl (SyntaxError ''Cannot convert to a BigInt''))"

text \<open>A page with no wallet and no network: every call that leaves the page fails.\<close>

definition offline :: env where
  "offline =
     \<lparr>isConnected = False, address = None, chainId = 0, publicClient = False,
      walletClient = Undeclared, ethereum_request = None,
      fetch = (\<lambda>rq. Inl (TypeError ''Failed to fetch'')),
      atob = (\<lambda>s. Inl (Error ''The string to be decoded is not correctly encoded.'')),
      decodeURIComponent = (\<lambda>s. Inr s),
      encodeUtf8 = (\<lambda>s. s),
      rasterize = (\<lambda>b n. LoadFailed),
      timeString = ''12:00:00'',
      parseEther = example_parseEther,
      formatEther = example_formatEther,
      BigInt = example_BigInt,
      read_feeConfig = (\<lambda>a. Inl (Error ''HTTP request failed.'')),
      read_getInitialBuyAmountOut = (\<lambda>a n. Inl (Error ''HTTP request failed.'')),
      writeContractAsync = (\<lambda>w. Inl (Error ''Connector not connected.'')),
      waitForTransactionReceipt = (\<lambda>h. Inl (Error ''HTTP request failed.'')),
      decodeEventLog = (\<lambda>l. None)\<rparr>"


definition png :: blob where
  "png = \<lparr>blob_type = ''image/png'', blob_bytes = ''PNG''\<rparr>"




text \<open>The Nad.fun mainnet API on a good day.\<close>

definition nadapp_fetch :: "request \<Rightarrow> js_error + http_response" where
  "nadapp_fetch rq =
     (if url rq = ''https://api.nadapp.net/metadata/image'' then
        Inr \<lparr>ok = True, statusText = ''OK'',
             json_body = Some (JObj [(''image_uri'', JStr ''ipfs://image''),
                                     (''is_nsfw'', JBool False)])\<rparr>
      else if url rq = ''https://api.nadapp.net/metadata/metadata'' then
        Inr \<lparr>ok = True, statusText = ''OK'',
             json_body = Some (JObj [(''metadata_uri'', JStr ''ipfs://metadata''),
                                     (''metadata'', JObj [(''is_nsfw'', JBool False)])])\<rparr>
      else if url rq = ''https://api.nadapp.net/token/salt'' then
        Inr \<lparr>ok = True, statusText = ''OK'',
             json_body = Some (JObj [(''salt'', JStr ''0x01''),
                                     (''address'', JStr ''0x7777'')])\<rparr>
      else Inl (TypeError ''Failed to fetch''))"


text \<open>A relay with an allow-list, an upstream that answers, and some requests.\<close>

definition listed :: relay_config where
  "listed = \<lparr>RELAY_TARGET = None,
             RELAY_ALLOWED_ORIGINS = Some ''https://app.example, localhost:3000''\<rparr>"

definition upstream_up :: "upstream_request \<Rightarrow> js_error + upstream_response" where
  "upstream_up up =
     Inr \<lparr>up_status = 200,
          up_response_headers =
            [(''content-type'', ''application/json''),
             (''access-control-allow-origin'', ''https://nad.fun''),
             (''content-length'', ''2'')],
          up_arrayBuffer = Inr ''{}''\<rparr>"

definition options_unknown :: relay_request where
  "options_unknown =
     \<lparr>rq_url = ''/unknown'', rq_method = ''OPTIONS'',
      rq_headers = [(''host'', ''localhost:8788''), (''origin'', ''https://evil.example'')],
      rq_body = Inr []\<rparr>"

definition get_unknown :: relay_request where
  "get_unknown =
     \<lparr>rq_url = ''/unknown'', rq_method = ''GET'',
      rq_headers = [(''host'', ''localhost:8788'')],
      rq_body = Inr []\<rparr>"

definition post_salt :: relay_request where
  "post_salt =
     \<lparr>rq_url = ''/relay/token/salt'', rq_method = ''POST'',
      rq_headers = [(''host'', ''localhost:8788''), (''origin'', ''http://localhost:3000/''),
                    (''content-type'', ''application/json''), (''referer'', ''http://localhost:3000/'')],
      rq_body = Inr ''{}''\<rparr>"

text \<open>A wallet connected on Monad Testnet, in a page where \<open>walletClient\<close> resolves (to
  nothing), with the Nad.fun API and the chain answering.\<close>

definition connected :: env where
  "connected =
     offline\<lparr>isConnected := True, address := Some ''0xC0FFEE'', chainId := 10143,
       publicClient := True, walletClient := Bound None,
       fetch := nadapp_fetch, atob := (\<lambda>s. Inr s),
       read_feeConfig := (\<lambda>a.
         if a = ''0xA7283d07812a02AFB7C09B60f8896bCEA3F90aCE''
         then Inr (10000000000000000000, 0, 100)
         else Inl (Error ''execution reverted'')),
       read_getInitialBuyAmountOut := (\<lambda>a n.
         if a = ''0x7e78A8DE94f21804F7a17F4E8BF9EC2c872187ea''
         then Inr (n * 1000)
         else Inl (Error ''execution reverted'')),
       writeContractAsync := (\<lambda>w. Inr ''0xabc''),
       waitForTransactionReceipt := (\<lambda>h. Inr [])\<rparr>"

definition cat_form :: token_form where
  "cat_form =
     \<lparr>name = ''Nad Cat'', symbol = ''NCAT'', token_supply = ''1000000000'',
      description = ''A cat.'', twitter = ''https://x.com/'', telegram = ''https://t.me/'',
      website = ''https://www.com'', initialBuyMon = Some ''0.1'', customLogoData = [],
      useCustomLogo = False, dryRun = False, taxRatePercent = 3, fundsPercent = 100,
      burnPercent = 0, holdersPercent = 0, liquidityPercent = 0,
      beneficiaryAddress = ''0xC0FFEE''\<rparr>"

text \<open>The builder at step 3 with a logo and the form filled in, nothing packed yet.\<close>

definition draft :: component where
  "draft =
     \<lparr>buildStep = 3, contractCode = ''contract Cat {}'', frontendPrompt = ''Build it.'',
      contractAddress = None, logos = [''data:image/png;base64,iVBORw0KGgo=''],
      selectedLogo = 0, tokenForm = cat_form, packedLaunch = JNull, isPacking = False,
      buildLogs = [], isContractDeploying = False, isMinting = False, txHash = None\<rparr>"


text \<open>What the form has to be for the validation to stop the pack, and the line it
  logs then.\<close>

definition invalid_form :: "token_form \<Rightarrow> bool" where
  "invalid_form tf \<longleftrightarrow>
     js_trim (name tf) = [] \<or> 20 < length (js_trim (name tf)) \<or>
     js_trim (symbol tf) = [] \<or> 10 < length (js_trim (symbol tf))"

definition validation_error :: "token_form \<Rightarrow> string" where
  "validation_error tf =
     (if js_trim (name tf) = [] \<or> 20 < length (js_trim (name tf))
      then ''Token name is required and must be 1-20 characters.''
      else ''Token symbol is required and must be 1-10 characters.'')"


text \<open>A call that goes to the mainnet deployment: the mainnet API, or the mainnet
  \<open>LENS\<close> or \<open>CURVE\<close> contract.\<close>

fun targets_mainnet :: "effect \<Rightarrow> bool" where
  "targets_mainnet (Fetch rq) = startsWith (url rq) (NADFUN_API_BASE_URL Mainnet)"
| "targets_mainnet (ReadContract a f xs) =
     (a = LENS (NADFUN_CONTRACTS Mainnet) \<or> a = CURVE (NADFUN_CONTRACTS Mainnet))"
| "targets_mainnet ev = True"

text \<open>The draft with the initial buy field emptied.\<close>

definition no_buy :: component where
  "no_buy = draft\<lparr>tokenForm := cat_form\<lparr>initialBuyMon := Some []\<rparr>\<rparr>"

text \<open>
  What a receipt gives, read independently of the loop: a log decodes as a creation
  event when \<open>decodeEventLog\<close> returns an event for it and the event is named
  \<open>CurveCreate\<close>; \<open>first_CurveCreate\<close> is the token and pool of the first such log of the
  receipt, and \<open>None\<close> when the receipt has none.
\<close>

definition decodes_as_create :: "(log_entry \<Rightarrow> decoded_event option) \<Rightarrow> log_entry \<Rightarrow> bool" where
  "decodes_as_create dec l =
     (case dec l of None \<Rightarrow> False | Some event \<Rightarrow> eventName event = ''CurveCreate'')"

definition first_CurveCreate ::
  "(log_entry \<Rightarrow> decoded_event option) \<Rightarrow> log_entry list \<Rightarrow> created option" where
  "first_CurveCreate dec logs =
     (case List.find (decodes_as_create dec) logs of
        None \<Rightarrow> None
      | Some l \<Rightarrow>
          map_option (\<lambda>event. \<lparr>token = args_token event, pool = args_pool event\<rparr>) (dec l))"

text \<open>Logs of three kinds: a transfer of another contract, which the curve's ABI does
  not decode; a buy on the curve; and the creation of a curve.\<close>

definition transfer_log :: log_entry where
  "transfer_log = \<lparr>log_data = ''0x64'', log_topics = [''0xddf252ad'', ''0x00'', ''0xC0FFEE'']\<rparr>"

definition buy_log :: log_entry where
  "buy_log = \<lparr>log_data = ''0x0a'', log_topics = [''0xb0c'', ''0x7777'']\<rparr>"

definition create_log :: log_entry where
  "create_log = \<lparr>log_data = ''0x9999'', log_topics = [''0xc0de'', ''0xC0FFEE'', ''0x7777'']\<rparr>"

definition curve_decode :: "log_entry \<Rightarrow> decoded_event option" where
  "curve_decode l =
     (if take 1 (log_topics l) = [''0xc0de'']
      then Some \<lparr>eventName = ''CurveCreate'', args_token = log_topics l ! 2,
                 args_pool = log_data l\<rparr>
      else if take 1 (log_topics l) = [''0xb0c'']
      then Some \<lparr>eventName = ''CurveBuy'', args_token = log_topics l ! 1, args_pool = []\<rparr>
      else None)"

text \<open>The chain confirming a transaction with a receipt of the given logs, and the chain
  failing to deliver a receipt.\<close>

definition confirming :: "log_entry list \<Rightarrow> env" where
  "confirming logs =
     connected\<lparr>waitForTransactionReceipt := (\<lambda>h. Inr logs), decodeEventLog := curve_decode\<rparr>"

definition unconfirmed :: env where
  "unconfirmed =
     connected\<lparr>waitForTransactionReceipt := (\<lambda>h. Inl (Error ''The request timed out.''))\<rparr>"

text \<open>The draft after a pack, and the transaction its packed launch asks for.\<close>

definition packed :: component where
  "packed = fst (packLaunchTx connected draft)"

definition packed_request :: write_request where
  "packed_request =
     \<lparr>w_address = ''0x6F6B8F1a20703309951a5127c45B49b1CD981A22'',
      w_functionName = ''create'',
      w_args = JObj [(''name'', JStr ''Nad Cat''), (''symbol'', JStr ''NCAT''),
                     (''tokenURI'', JStr ''ipfs://metadata''),
                     (''amountOut'', JNum 100000000000000000000),
                     (''salt'', JStr ''0x01''), (''actionId'', JNum 1)],
      w_value = 10100000000000000000,
      w_chainId = 10143,
      w_account = Some ''0xC0FFEE''\<rparr>"

text \<open>
  What a fresh session can start from: the flags of the operations in flight and the
  transaction hash are state of the running page and are not stored.
\<close>

definition fresh_session :: "component \<Rightarrow> component" where
  "fresh_session s =
     s\<lparr>isPacking := False, isContractDeploying := False, isMinting := False, txHash := None\<rparr>"

text \<open>The form with its five defaulted fields: one that is empty (or missing) reads as
  its default.\<close>

definition with_defaults :: "token_form \<Rightarrow> token_form" where
  "with_defaults tf =
     tf\<lparr>token_supply := or_else (token_supply tf) ''1000000000'',
        twitter := or_else (twitter tf) ''https://x.com/'',
        telegram := or_else (telegram tf) ''https://t.me/'',
        website := or_else (website tf) ''https://www.com'',
        initialBuyMon :=
          Some (or_else (case initialBuyMon tf of None \<Rightarrow> [] | Some v \<Rightarrow> v) ''0.1'')\<rparr>"

text \<open>A concept, a browser with nothing stored, a stand-in for \<open>buildLogoSet\<close>, and the
  draft with the Twitter field cleared by the user.\<close>

definition cat :: idea where
  "cat = \<lparr>idea_id = ''42'', title = ''Nad Cat'', tagline = ''A cat on Monad.'',
          idea_description = ''A cat.''\<rparr>"

definition no_items :: storage where
  "no_items = (\<lambda>key. None)"

definition logo_set :: "string \<Rightarrow> string list" where
  "logo_set t = [''data:image/svg+xml;utf8,'' @ t]"

definition cleared :: component where
  "cleared = draft\<lparr>tokenForm := cat_form\<lparr>twitter := []\<rparr>\<rparr>"

text \<open>The state of a builder opened with nothing stored: the constants of lines 436 to
  476, which the restore effect sets again in its \<open>else\<close> branch (lines 533 to 558).\<close>

definition initial_state :: component where
  "initial_state =
     \<lparr>buildStep = 0, contractCode = [], frontendPrompt = [], contractAddress = None,
      logos = [], selectedLogo = 0,
      tokenForm =
        \<lparr>name = [], symbol = [], token_supply = ''1000000000'', description = [],
         twitter = ''https://x.com/'', telegram = ''https://t.me/'',
         website = ''https://www.com'', initialBuyMon = Some ''0.1'', customLogoData = [],
         useCustomLogo = False, dryRun = False, taxRatePercent = 3, fundsPercent = 100,
         burnPercent = 0, holdersPercent = 0, liquidityPercent = 0,
         beneficiaryAddress = []\<rparr>,
      packedLaunch = JNull, isPacking = False, buildLogs = [], isContractDeploying = False,
      isMinting = False, txHash = None\<rparr>"

text \<open>The browser after the packed draft was persisted for the concept.\<close>

definition packed_store :: storage where
  "packed_store = persist cat packed no_items"

section \<open>Properties\<close>

subsection \<open>Sequencing\<close>

lemma snd_await:
  "snd (await m f) = (case snd m of Inl e \<Rightarrow> Inl e | Inr a \<Rightarrow> snd (f a))"
  by (simp add: await_def split: sum.splits prod.splits)

lemma fst_await:
  "fst (await m f) = (case snd m of Inl e \<Rightarrow> fst m | Inr a \<Rightarrow> fst m @ fst (f a))"
  by (simp add: await_def split: sum.splits prod.splits)

lemma snd_ret [simp]: "snd (ret a) = Inr a"
  by (simp add: ret_def)

lemma fst_ret [simp]: "fst (ret a) = []"
  by (simp add: ret_def)

lemma snd_throw [simp]: "snd (throw e) = Inl e"
  by (simp add: throw_def)

lemma fst_throw [simp]: "fst (throw e) = []"
  by (simp add: throw_def)

lemma snd_perform [simp]: "snd (perform ev r) = r"
  by (simp add: perform_def)

lemma fst_perform [simp]: "fst (perform ev r) = [ev]"
  by (simp add: perform_def)

subsection \<open>Upload errors\<close>









subsection \<open>The relay\<close>

lemma filter_assign_other:
  "\<not> P k \<Longrightarrow> filter (\<lambda>e. P (fst e)) (assign k v es) = filter (\<lambda>e. P (fst e)) es"
  by (induction es) auto

lemma filter_spread_other:
  "list_all (\<lambda>e. \<not> P (fst e)) extra \<Longrightarrow>
     filter (\<lambda>e. P (fst e)) (spread base extra) = filter (\<lambda>e. P (fst e)) base"
  by (induction extra arbitrary: base) (auto simp: filter_assign_other)

lemma assign_keys: "fst ` set (assign k v es) = insert k (fst ` set es)"
  by (induction es) auto

lemma spread_keys: "fst ` set (spread base extra) = fst ` set base \<union> fst ` set extra"
  by (induction extra arbitrary: base) (auto simp: assign_keys)

lemma lower_acao:
  "toLowerCase ''Access-Control-Allow-Origin'' = ''access-control-allow-origin''"
  by (simp add: toLowerCase_def lower_char_def)

lemma lower_plain:
  "toLowerCase ''Access-Control-Allow-Headers'' \<noteq> ''access-control-allow-origin''"
  "toLowerCase ''Access-Control-Allow-Methods'' \<noteq> ''access-control-allow-origin''"
  "toLowerCase ''Vary'' \<noteq> ''access-control-allow-origin''"
  "toLowerCase ''Content-Type'' \<noteq> ''access-control-allow-origin''"
  by (simp_all add: toLowerCase_def lower_char_def)

lemma send_acao:
  assumes "list_all (\<lambda>e. toLowerCase (fst e) \<noteq> ''access-control-allow-origin'') hs"
  shows "filter (\<lambda>e. toLowerCase (fst e) = ''access-control-allow-origin'')
           (res_headers (send cfg req st b hs)) =
         (let c = getCorsOrigin cfg
                    (case map_of (rq_headers req) ''origin'' of None \<Rightarrow> [] | Some v \<Rightarrow> v)
          in if c \<noteq> [] then [(''Access-Control-Allow-Origin'', c)] else [])"
  using assms
  by (simp add: send_def Let_def lower_acao lower_plain
        filter_spread_other [where P = "\<lambda>k. toLowerCase k = ''access-control-allow-origin''"])

lemma resHeaders_no_acao:
  "list_all (\<lambda>e. toLowerCase (fst e) \<noteq> ''access-control-allow-origin'') (resHeaders upstream)"
proof -
  have "fst ` set (resHeaders upstream) \<subseteq>
          {k. toLowerCase k \<notin> set dropped_upstream_headers}"
    by (auto simp: resHeaders_def spread_keys)
  then show ?thesis
    by (auto simp: list_all_iff dropped_upstream_headers_def)
qed

lemma handler_sends:
  "\<exists>st b hs. fst (handler cfg upstream_fetch req) = send cfg req st b hs \<and>
     list_all (\<lambda>e. toLowerCase (fst e) \<noteq> ''access-control-allow-origin'') hs"
proof -
  define P where "P = (\<lambda>r. \<exists>st b hs. r = send cfg req st b hs \<and>
     list_all (\<lambda>e. toLowerCase (fst e) \<noteq> ''access-control-allow-origin'') hs)"
  have plain: "list_all (\<lambda>e. toLowerCase (fst e) \<noteq> ''access-control-allow-origin'')
                 [(''Content-Type'', ''application/json'')]"
    by (simp add: lower_plain)
  have err: "P (send_error cfg req e)" for e
    unfolding P_def send_error_def using plain by blast
  have "list_all (\<lambda>e. toLowerCase (fst e) \<noteq> ''access-control-allow-origin'')
          ([] :: (string \<times> string) list)"
    by simp
  then have nil: "P (send cfg req st b [])" for st b
    unfolding P_def by blast
  have up: "P (send cfg req st b (resHeaders u))" for st b u
    unfolding P_def using resHeaders_no_acao by blast
  have "P (fst (handler cfg upstream_fetch req))"
    unfolding handler_def Let_def
    by (simp add: err nil up split: sum.splits)
  then show ?thesis
    unfolding P_def .
qed

text \<open>
  C8. On every response of the relay, the \<open>Access-Control-Allow-Origin\<close> headers (under
  any spelling of the name) are settled by the request's \<open>Origin\<close>: a request with no
  \<open>Origin\<close> (or an empty one) gets \<open>*\<close>, whatever the allow-list; with an \<open>Origin\<close>, an
  empty allow-list gives \<open>*\<close>, and a configured one gives the \<open>Origin\<close> itself when it
  is on the list as it stands or without scheme and trailing slash, and no header
  otherwise.
\<close>

theorem relay_cors_policy:
  "filter (\<lambda>e. toLowerCase (fst e) = ''access-control-allow-origin'')
     (res_headers (fst (handler cfg upstream_fetch req))) =
   (let origin = (case map_of (rq_headers req) ''origin'' of None \<Rightarrow> [] | Some v \<Rightarrow> v)
    in if origin = [] then [(''Access-Control-Allow-Origin'', ''*'')]
       else if allowedOrigins cfg = [] then [(''Access-Control-Allow-Origin'', ''*'')]
       else if origin \<in> set (allowedOrigins cfg) \<or>
               strip_trailing_slash (strip_scheme origin) \<in> set (allowedOrigins cfg)
            then [(''Access-Control-Allow-Origin'', origin)]
            else [])"
proof -
  obtain st b hs where h: "fst (handler cfg upstream_fetch req) = send cfg req st b hs"
    and hs: "list_all (\<lambda>e. toLowerCase (fst e) \<noteq> ''access-control-allow-origin'') hs"
    using handler_sends by blast
  show ?thesis
    unfolding h send_acao [OF hs]
    by (simp add: getCorsOrigin_def Let_def)
qed

theorem relay_cors_policy_witness:
  "filter (\<lambda>e. toLowerCase (fst e) = ''access-control-allow-origin'')
     (res_headers (fst (handler listed upstream_up post_salt))) =
     [(''Access-Control-Allow-Origin'', ''http://localhost:3000/'')] \<and>
   filter (\<lambda>e. toLowerCase (fst e) = ''access-control-allow-origin'')
     (res_headers (fst (handler listed upstream_up options_unknown))) = []"
  using relay_cors_policy [of listed upstream_up post_salt]
        relay_cors_policy [of listed upstream_up options_unknown]
  by (simp add: listed_def post_salt_def options_unknown_def allowedOrigins_def or_default_def
        js_trim_def is_js_whitespace_def strip_scheme_def strip_trailing_slash_def
        startsWith_def endsWith_def)

text \<open>With an allow-list configured, a request that carries no \<open>Origin\<close> is answered
  with \<open>Access-Control-Allow-Origin: *\<close>, which echoes no origin of the list.\<close>

theorem relay_cors_no_origin_counterexample:
  "allowedOrigins listed = [''https://app.example'', ''localhost:3000''] \<and>
   map_of (rq_headers get_unknown) ''origin'' = None \<and>
   map_of (res_headers (fst (handler listed upstream_up get_unknown)))
     ''Access-Control-Allow-Origin'' = Some ''*''"
  by (simp add: listed_def get_unknown_def allowedOrigins_def or_default_def
        js_trim_def is_js_whitespace_def handler_def send_def getCorsOrigin_def startsWith_def)




subsection \<open>Effects of the service functions\<close>

lemma fst_await_quiet: "(\<And>a. fst (f a) = []) \<Longrightarrow> fst (await m f) = fst m"
  by (simp add: fst_await split: sum.splits)

lemma list_all_await:
  "list_all P (fst (await m f)) \<longleftrightarrow>
     list_all P (fst m) \<and> (\<forall>a. snd m = Inr a \<longrightarrow> list_all P (fst (f a)))"
  by (cases "snd m") (simp_all add: fst_await)

lemma fst_addToLog [simp]: "fst (addToLog msg) = [Log msg]"
  by (simp add: addToLog_def)

lemma snd_addToLog [simp]: "snd (addToLog msg) = Inr ()"
  by (simp add: addToLog_def)

lemma fst_read_field [simp]: "fst (read_field k v) = []"
proof (cases v)
  case None
  then show ?thesis by simp
next
  case (Some j)
  then show ?thesis by (cases j) simp_all
qed

lemma fst_res_json [simp]: "fst (res_json res) = []"
  by (simp add: res_json_def split: option.splits)

lemma fst_failure_detail [simp]: "fst (failure_detail res) = []"
  by (simp add: failure_detail_def fst_await_quiet)

lemma fst_uploadImage [simp]:
  "fst (uploadImage env b ct n) = [Fetch (image_request b ct n)]"
  by (simp add: uploadImage_def Let_def fst_await_quiet)

lemma fst_uploadMetadata [simp]:
  "fst (uploadMetadata env params n) = [Fetch (metadata_request params n)]"
  by (simp add: uploadMetadata_def Let_def fst_await_quiet)

lemma fst_mineSalt [simp]:
  "fst (mineSalt env params n) = [Fetch (salt_request params n)]"
  by (simp add: mineSalt_def Let_def fst_await_quiet)

lemma fst_getFeeConfig [simp]:
  "fst (getFeeConfig env n) = [ReadContract (CURVE (NADFUN_CONTRACTS n)) ''feeConfig'' []]"
  by (simp add: getFeeConfig_def fst_await_quiet split: prod.splits)

lemma snd_getFeeConfig:
  "snd (getFeeConfig env n) =
     (case read_feeConfig env (CURVE (NADFUN_CONTRACTS n)) of
        Inl e \<Rightarrow> Inl e
      | Inr r \<Rightarrow> Inr \<lparr>deployFeeAmount = fst r, graduateFeeAmount = fst (snd r),
                       protocolFee = snd (snd r)\<rparr>)"
  by (simp add: getFeeConfig_def snd_await split: sum.splits prod.splits)

lemma fst_getInitialBuyAmountOut [simp]:
  "fst (getInitialBuyAmountOut env a n) =
     [ReadContract (LENS (NADFUN_CONTRACTS n)) ''getInitialBuyAmountOut'' [a]]"
  by (simp add: getInitialBuyAmountOut_def)

lemma snd_getInitialBuyAmountOut [simp]:
  "snd (getInitialBuyAmountOut env a n) =
     read_getInitialBuyAmountOut env (LENS (NADFUN_CONTRACTS n)) a"
  by (simp add: getInitialBuyAmountOut_def)

subsection \<open>Effects of a pack\<close>

lemma pack_prepare_local:
  "list_all (\<lambda>ev. \<not> nadfun_call ev \<and> \<not> sets_packed ev) (fst (pack_prepare env s))"
  by (auto simp: pack_prepare_def authorize_def ensureWalletAuthorized_def dataUrlToBlob_def
        svgToPngBlob_def list_all_await
      split: option.splits global_name.splits sum.splits prod.splits)

lemma packedLaunch_apply_effects:
  "list_all (\<lambda>ev. \<not> sets_packed ev) evs \<Longrightarrow>
     packedLaunch (apply_effects env s evs) = packedLaunch s"
proof -
  have "list_all (\<lambda>ev. \<not> sets_packed ev) evs \<Longrightarrow>
          packedLaunch (foldl (apply_effect t) s evs) = packedLaunch s" for t
  proof (induction evs arbitrary: s)
    case Nil
    then show ?case by simp
  next
    case (Cons ev evs)
    then show ?case by (cases ev) simp_all
  qed
  then show "list_all (\<lambda>ev. \<not> sets_packed ev) evs \<Longrightarrow>
     packedLaunch (apply_effects env s evs) = packedLaunch s"
    by (simp add: apply_effects_def)
qed

lemma pack_validated_bad_name:
  "js_trim (name (tokenForm s)) = [] \<or> 20 < length (js_trim (name (tokenForm s))) \<Longrightarrow>
     pack_validated env s b = addToLog ''Token name is required and must be 1-20 characters.''"
  by (auto simp: pack_validated_def Let_def)

lemma pack_validated_bad_symbol:
  "\<not> (js_trim (name (tokenForm s)) = [] \<or> 20 < length (js_trim (name (tokenForm s)))) \<Longrightarrow>
   js_trim (symbol (tokenForm s)) = [] \<or> 10 < length (js_trim (symbol (tokenForm s))) \<Longrightarrow>
     pack_validated env s b = addToLog ''Token symbol is required and must be 1-10 characters.''"
  by (auto simp: pack_validated_def Let_def)

lemma pack_validated_invalid:
  "invalid_form (tokenForm s) \<Longrightarrow>
     pack_validated env s b = addToLog (validation_error (tokenForm s))"
  unfolding invalid_form_def validation_error_def
  using pack_validated_bad_name [of s env b] pack_validated_bad_symbol [of s env b]
  by (cases "js_trim (name (tokenForm s)) = [] \<or> 20 < length (js_trim (name (tokenForm s)))")
     auto





subsection \<open>The network stages of a pack\<close>

lemma is_quote_nadfun_call: "is_quote ev \<Longrightarrow> nadfun_call ev"
  by (cases ev) simp_all

lemma filter_quote_local:
  "list_all (\<lambda>ev. \<not> nadfun_call ev \<and> \<not> sets_packed ev) evs \<Longrightarrow> filter is_quote evs = []"
  by (induction evs) (auto dest: is_quote_nadfun_call)

lemma pack_network_quotes:
  "filter is_quote (fst (pack_network env s b tn ts amt)) = [] \<or>
   (0 < amt \<and> filter is_quote (fst (pack_network env s b tn ts amt)) =
      [ReadContract (LENS (NADFUN_CONTRACTS Mainnet)) ''getInitialBuyAmountOut'' [amt]])"
  by (simp add: pack_network_def fst_await snd_await NADFUN_NETWORK_def
      split: sum.splits)

lemma pack_network_no_quote:
  "\<not> 0 < amt \<Longrightarrow> filter is_quote (fst (pack_network env s b tn ts amt)) = []"
  using pack_network_quotes [of env s b tn ts amt] by auto

lemma pack_network_packed:
  assumes "SetPackedLaunch p \<in> set (fst (pack_network env s b tn ts amt))"
  shows "\<exists>imageRes metadataRes saltRes fee g pf minTokens.
           read_feeConfig env (CURVE (NADFUN_CONTRACTS Mainnet)) = Inr (fee, g, pf) \<and>
           (if 0 < amt
            then read_getInitialBuyAmountOut env (LENS (NADFUN_CONTRACTS Mainnet)) amt = Inr minTokens \<and>
                 filter is_quote (fst (pack_network env s b tn ts amt)) =
                   [ReadContract (LENS (NADFUN_CONTRACTS Mainnet)) ''getInitialBuyAmountOut'' [amt]]
            else minTokens = 0) \<and>
           p = packed_launch env s b tn ts amt imageRes metadataRes saltRes
                 \<lparr>deployFeeAmount = fee, graduateFeeAmount = g, protocolFee = pf\<rparr> minTokens"
  using assms
  by (auto simp: pack_network_def fst_await snd_await snd_getFeeConfig NADFUN_NETWORK_def
      split: sum.splits if_splits) blast+

lemma list_all_targets_pack_network:
  "list_all targets_mainnet (fst (pack_network env s b tn ts amt))"
  by (simp add: pack_network_def fst_await snd_await NADFUN_NETWORK_def image_request_def
        metadata_request_def salt_request_def startsWith_def
      split: sum.splits)

lemma pack_prepare_Some:
  "snd (pack_prepare env s) = Inr (Some b) \<Longrightarrow>
     isConnected env \<and> \<not> absent (address env) \<and> publicClient env \<and>
     chainId env = monadTestnet_id"
  by (auto simp: pack_prepare_def snd_await split: if_splits)

lemma pack_validated_valid:
  "\<not> invalid_form (tokenForm s) \<Longrightarrow>
     pack_validated env s b =
       (case initialBuyAmount_of env (tokenForm s) of
          None \<Rightarrow> addToLog ''Invalid initial buy amount. Use a number like 0, 0.1, 1.25''
        | Some amt \<Rightarrow>
            pack_network env s b (js_trim (name (tokenForm s)))
              (js_trim (symbol (tokenForm s))) amt)"
  by (simp add: pack_validated_def invalid_form_def Let_def)

text \<open>A call of \<open>packLaunchTx\<close> does what \<open>pack_prepare\<close> does, then possibly the
  network stages, then possibly logs one more line.\<close>

lemma packLaunchTx_decompose:
  "\<exists>pre mid post.
     snd (packLaunchTx env s) = pre @ mid @ post \<and>
     list_all (\<lambda>ev. \<not> nadfun_call ev \<and> \<not> sets_packed ev) pre \<and>
     list_all (\<lambda>ev. \<not> nadfun_call ev \<and> \<not> sets_packed ev) post \<and>
     (mid = [] \<or>
      (\<exists>b amt. initialBuyAmount_of env (tokenForm s) = Some amt \<and>
         chainId env = monadTestnet_id \<and>
         mid = fst (pack_network env s b (js_trim (name (tokenForm s)))
                      (js_trim (symbol (tokenForm s))) amt)))"
proof (cases "isPacking s")
  case True
  then have "snd (packLaunchTx env s) = [] @ [] @ []"
    by (simp add: packLaunchTx_def)
  moreover have "list_all (\<lambda>ev. \<not> nadfun_call ev \<and> \<not> sets_packed ev) []"
    by simp
  ultimately show ?thesis
    by blast
next
  case False
  define post where "post = (case snd (packLaunchTx_body env s) of
      Inl error \<Rightarrow> [Log (''Pack failed: '' @ message_or_unknown error)] | Inr u \<Rightarrow> [])"
  have post: "list_all (\<lambda>ev. \<not> nadfun_call ev \<and> \<not> sets_packed ev) post"
    by (simp add: post_def split: sum.splits)
  have all: "snd (packLaunchTx env s) = fst (packLaunchTx_body env s) @ post"
    using False by (simp add: packLaunchTx_def Let_def post_def)
  have pre: "list_all (\<lambda>ev. \<not> nadfun_call ev \<and> \<not> sets_packed ev) (fst (pack_prepare env s))"
    by (rule pack_prepare_local)
  show ?thesis
  proof (cases "snd (pack_prepare env s)")
    case (Inl e)
    then have "snd (packLaunchTx env s) = fst (pack_prepare env s) @ [] @ post"
      by (simp add: all packLaunchTx_body_def fst_await)
    with pre post show ?thesis by blast
  next
    case (Inr r)
    show ?thesis
    proof (cases r)
      case None
      with Inr have "snd (packLaunchTx env s) = fst (pack_prepare env s) @ [] @ post"
        by (simp add: all packLaunchTx_body_def fst_await)
      with pre post show ?thesis by blast
    next
      case (Some b)
      with Inr have body: "fst (packLaunchTx_body env s) =
          fst (pack_prepare env s) @ fst (pack_validated env s b)"
        by (simp add: packLaunchTx_body_def fst_await)
      from Inr Some have chain: "chainId env = monadTestnet_id"
        using pack_prepare_Some by blast
      consider (log) msg where "pack_validated env s b = addToLog msg"
        | (net) amt where "initialBuyAmount_of env (tokenForm s) = Some amt"
            "pack_validated env s b =
               pack_network env s b (js_trim (name (tokenForm s)))
                 (js_trim (symbol (tokenForm s))) amt"
      proof (cases "invalid_form (tokenForm s)")
        case True
        then show ?thesis
          using log pack_validated_invalid by blast
      next
        case False
        then show ?thesis
          using log net pack_validated_valid [of s env b]
          by (cases "initialBuyAmount_of env (tokenForm s)") auto
      qed
      then show ?thesis
      proof cases
        case log
        then have "snd (packLaunchTx env s) =
            (fst (pack_prepare env s) @ [Log msg]) @ [] @ post"
          by (simp add: all body)
        moreover have "list_all (\<lambda>ev. \<not> nadfun_call ev \<and> \<not> sets_packed ev)
            (fst (pack_prepare env s) @ [Log msg])"
          using pre by simp
        ultimately show ?thesis using post by blast
      next
        case net
        then have "snd (packLaunchTx env s) =
            fst (pack_prepare env s) @
            fst (pack_network env s b (js_trim (name (tokenForm s)))
                   (js_trim (symbol (tokenForm s))) amt) @ post"
          by (simp add: all body)
        with pre post net(1) chain show ?thesis by blast
      qed
    qed
  qed
qed

lemma local_targets_mainnet: "\<not> nadfun_call ev \<Longrightarrow> targets_mainnet ev"
  by (cases ev) simp_all

lemma local_not_set: "list_all (\<lambda>ev. \<not> nadfun_call ev \<and> \<not> sets_packed ev) evs \<Longrightarrow>
    SetPackedLaunch p \<notin> set evs"
  by (induction evs) auto


lemma packLaunchTx_packed:
  assumes "SetPackedLaunch p \<in> set (snd (packLaunchTx env s))"
  shows "\<exists>b amt imageRes metadataRes saltRes fee g pf minTokens.
           initialBuyAmount_of env (tokenForm s) = Some amt \<and>
           chainId env = monadTestnet_id \<and>
           read_feeConfig env (CURVE (NADFUN_CONTRACTS Mainnet)) = Inr (fee, g, pf) \<and>
           (if 0 < amt
            then read_getInitialBuyAmountOut env (LENS (NADFUN_CONTRACTS Mainnet)) amt = Inr minTokens \<and>
                 filter is_quote (snd (packLaunchTx env s)) =
                   [ReadContract (LENS (NADFUN_CONTRACTS Mainnet)) ''getInitialBuyAmountOut'' [amt]]
            else minTokens = 0) \<and>
           p = packed_launch env s b (js_trim (name (tokenForm s)))
                 (js_trim (symbol (tokenForm s))) amt imageRes metadataRes saltRes
                 \<lparr>deployFeeAmount = fee, graduateFeeAmount = g, protocolFee = pf\<rparr> minTokens"
proof -
  obtain pre mid post where d: "snd (packLaunchTx env s) = pre @ mid @ post"
    and pre: "list_all (\<lambda>ev. \<not> nadfun_call ev \<and> \<not> sets_packed ev) pre"
    and post: "list_all (\<lambda>ev. \<not> nadfun_call ev \<and> \<not> sets_packed ev) post"
    and mid: "mid = [] \<or>
      (\<exists>b amt. initialBuyAmount_of env (tokenForm s) = Some amt \<and>
         chainId env = monadTestnet_id \<and>
         mid = fst (pack_network env s b (js_trim (name (tokenForm s)))
                      (js_trim (symbol (tokenForm s))) amt))"
    using packLaunchTx_decompose [of env s] by blast
  have q: "filter is_quote (snd (packLaunchTx env s)) = filter is_quote mid"
    by (simp add: d filter_quote_local [OF pre] filter_quote_local [OF post])
  from assms have inmid: "SetPackedLaunch p \<in> set mid"
    using local_not_set [OF pre] local_not_set [OF post] by (auto simp: d)
  then have "mid \<noteq> []" by auto
  with mid obtain b amt where amt: "initialBuyAmount_of env (tokenForm s) = Some amt"
      and chain: "chainId env = monadTestnet_id"
      and m: "mid = fst (pack_network env s b (js_trim (name (tokenForm s)))
                      (js_trim (symbol (tokenForm s))) amt)"
    by blast
  from pack_network_packed [OF inmid [unfolded m]] amt chain
  show ?thesis
    unfolding q m by blast
qed

lemma packLaunchTx_targets: "list_all targets_mainnet (snd (packLaunchTx env s))"
proof -
  obtain pre mid post where d: "snd (packLaunchTx env s) = pre @ mid @ post"
    and pre: "list_all (\<lambda>ev. \<not> nadfun_call ev \<and> \<not> sets_packed ev) pre"
    and post: "list_all (\<lambda>ev. \<not> nadfun_call ev \<and> \<not> sets_packed ev) post"
    and mid: "mid = [] \<or>
      (\<exists>b amt. initialBuyAmount_of env (tokenForm s) = Some amt \<and>
         chainId env = monadTestnet_id \<and>
         mid = fst (pack_network env s b (js_trim (name (tokenForm s)))
                      (js_trim (symbol (tokenForm s))) amt))"
    using packLaunchTx_decompose [of env s] by blast
  have "list_all targets_mainnet pre" "list_all targets_mainnet post"
    using pre post by (auto simp: list_all_iff intro: local_targets_mainnet)
  moreover have "list_all targets_mainnet mid"
    using mid list_all_targets_pack_network by auto
  ultimately show ?thesis
    by (simp add: d)
qed

lemma packed_launch_fields:
  "get_path [''network''] (packed_launch env s b tn ts amt ir mr sr fc mt) =
     Some (JStr ''mainnet'')"
  "get_path [''contracts''] (packed_launch env s b tn ts amt ir mr sr fc mt) =
     Some (contracts_json (NADFUN_CONTRACTS Mainnet))"
  "get_path [''tx'', ''to''] (packed_launch env s b tn ts amt ir mr sr fc mt) =
     Some (JStr (BONDING_CURVE_ROUTER (NADFUN_CONTRACTS Mainnet)))"
  "get_path [''tx'', ''value''] (packed_launch env s b tn ts amt ir mr sr fc mt) =
     Some (JStr (show_int (deployFeeAmount fc + amt)))"
  "get_path [''fee'', ''deployFeeAmount''] (packed_launch env s b tn ts amt ir mr sr fc mt) =
     Some (JStr (show_int (deployFeeAmount fc)))"
  "get_path [''initialBuy'', ''amount''] (packed_launch env s b tn ts amt ir mr sr fc mt) =
     Some (JStr (show_int amt))"
  "get_path [''minTokens''] (packed_launch env s b tn ts amt ir mr sr fc mt) =
     Some (JStr (show_int mt))"
  by (simp_all add: packed_launch_def obj_def Let_def NADFUN_NETWORK_def)

lemma packed_launch_amountOut:
  "get_path [''tx'', ''args'', ''amountOut''] (packed_launch env s b tn ts amt ir mr sr fc mt) =
     Some (JStr (show_int mt))"
  by (simp add: packed_launch_def obj_def Let_def split: option.splits)




subsection \<open>Running the model on an input\<close>

text \<open>Rules that evaluate a run stage by stage: the first computation of an \<open>await\<close>
  is evaluated before its continuation is looked at.\<close>

lemma await_Inr: "await (evs, Inr a) f = (case f a of (evs', r) \<Rightarrow> (evs @ evs', r))"
  by (simp add: await_def)

lemma await_Inl: "await (evs, Inl e) f = (evs, Inl e)"
  by (simp add: await_def)

lemma await_weak_cong: "m = m' \<Longrightarrow> await m f = await m' f"
  by simp

lemmas run_defs =
  await_Inr await_Inl ret_def throw_def perform_def addToLog_def
  uploadImage_def uploadMetadata_def mineSalt_def getFeeConfig_def getInitialBuyAmountOut_def
  image_request_def metadata_request_def salt_request_def res_json_def failure_detail_def
  error_payload_def obj_def or_null_def NADFUN_NETWORK_def
  pack_network_def pack_validated_def pack_prepare_def packLaunchTx_body_def packLaunchTx_def
  authorize_def ensureWalletAuthorized_def dataUrlToBlob_def base64Match_def utf8Match_def
  match_prefix_def dot_plus_def startsWith_def svgToPngBlob_def imageData_def
  initialBuyAmount_of_def js_trim_def is_js_whitespace_def packed_launch_def contracts_json_def
  message_or_unknown_def apply_effects_def absent_def monadTestnet_id_def Let_def

lemmas sample_defs =
  connected_def offline_def draft_def cat_form_def nadapp_fetch_def no_buy_def

lemma sample_amounts:
  "example_parseEther ''0'' = Inr 0"
  "example_parseEther ''0.1'' = Inr 100000000000000000"
  "show_int 0 = ''0''"
  "show_int 100000000000000000 = ''100000000000000000''"
  "show_int 10000000000000000000 = ''10000000000000000000''"
  "show_int 10100000000000000000 = ''10100000000000000000''"
  "show_int 100000000000000000000 = ''100000000000000000000''"
  "example_formatEther 10000000000000000000 = ''10''"
  "example_formatEther 10100000000000000000 = ''10.1''"
  "example_formatEther 100000000000000000 = ''0.1''"
  "example_formatEther 0 = ''0''"
  by (simp_all add: example_parseEther_def example_formatEther_def digit_of_def show_int_def
        show_nat.simps Let_def)


lemma apply_effects_packed:
  "packedLaunch (apply_effects env s evs) = packedLaunch s \<or>
   SetPackedLaunch (packedLaunch (apply_effects env s evs)) \<in> set evs"
proof -
  have "packedLaunch (foldl (apply_effect t) s evs) = packedLaunch s \<or>
        SetPackedLaunch (packedLaunch (foldl (apply_effect t) s evs)) \<in> set evs" for t
  proof (induction evs arbitrary: s)
    case Nil
    then show ?case by simp
  next
    case (Cons ev evs)
    from Cons [of "apply_effect t s ev"] show ?case
      by (cases ev) auto
  qed
  then show ?thesis
    by (simp add: apply_effects_def)
qed

lemma packLaunchTx_state_packed:
  "packedLaunch (fst (packLaunchTx env s)) = packedLaunch s \<or>
   SetPackedLaunch (packedLaunch (fst (packLaunchTx env s))) \<in> set (snd (packLaunchTx env s))"
  using apply_effects_packed [of env s "snd (packLaunchTx env s)"]
  by (auto simp: packLaunchTx_def Let_def)





text \<open>
  C10. Every call of the Nad.fun service that \<open>packLaunchTx\<close> makes goes to the mainnet
  deployment: the mainnet API, the mainnet \<open>LENS\<close> and \<open>CURVE\<close> contracts. A packed launch
  reaches the state only through the pack's own update, and every packed launch
  produced names the network \<open>mainnet\<close>, carries the mainnet contract addresses and has
  the mainnet \<open>BONDING_CURVE_ROUTER\<close> as \<open>tx.to\<close>, while the wallet's chain id is the one of
  Monad Testnet.
\<close>

theorem pack_targets_mainnet:
  "list_all targets_mainnet (snd (packLaunchTx env s)) \<and>
   (packedLaunch (fst (packLaunchTx env s)) = packedLaunch s \<or>
    SetPackedLaunch (packedLaunch (fst (packLaunchTx env s))) \<in> set (snd (packLaunchTx env s))) \<and>
   (\<forall>p. SetPackedLaunch p \<in> set (snd (packLaunchTx env s)) \<longrightarrow>
      chainId env = monadTestnet_id \<and>
      get_path [''network''] p = Some (JStr ''mainnet'') \<and>
      get_path [''contracts''] p = Some (contracts_json (NADFUN_CONTRACTS Mainnet)) \<and>
      get_path [''tx'', ''to''] p = Some (JStr ''0x6F6B8F1a20703309951a5127c45B49b1CD981A22''))"
proof (intro conjI allI impI)
  show "list_all targets_mainnet (snd (packLaunchTx env s))"
    by (rule packLaunchTx_targets)
  show "packedLaunch (fst (packLaunchTx env s)) = packedLaunch s \<or>
    SetPackedLaunch (packedLaunch (fst (packLaunchTx env s))) \<in> set (snd (packLaunchTx env s))"
    by (rule packLaunchTx_state_packed)
next
  fix p
  assume "SetPackedLaunch p \<in> set (snd (packLaunchTx env s))"
  from packLaunchTx_packed [OF this]
  show "chainId env = monadTestnet_id"
    and "get_path [''network''] p = Some (JStr ''mainnet'')"
    and "get_path [''contracts''] p = Some (contracts_json (NADFUN_CONTRACTS Mainnet))"
    and "get_path [''tx'', ''to''] p = Some (JStr ''0x6F6B8F1a20703309951a5127c45B49b1CD981A22'')"
    by (auto simp del: get_path.simps simp: packed_launch_fields)
qed


theorem pack_targets_mainnet_witness:
  "SetPackedLaunch (packedLaunch (fst (packLaunchTx connected draft)))
     \<in> set (snd (packLaunchTx connected draft)) \<and>
   chainId connected = 10143 \<and>
   get_path [''network''] (packedLaunch (fst (packLaunchTx connected draft))) =
     Some (JStr ''mainnet'') \<and>
   get_path [''tx'', ''to''] (packedLaunch (fst (packLaunchTx connected draft))) =
     Some (JStr ''0x6F6B8F1a20703309951a5127c45B49b1CD981A22'') \<and>
   filter nadfun_call (snd (packLaunchTx connected draft)) =
     [Fetch (image_request \<lparr>blob_type = ''image/png'', blob_bytes = ''iVBORw0KGgo=''\<rparr>
               ''image/png'' Mainnet),
      Fetch (metadata_request
               \<lparr>p_imageUri = Some (JStr ''ipfs://image''), p_name = ''Nad Cat'',
                p_symbol = ''NCAT'', p_description = ''A cat.'',
                p_website = Some ''https://www.com'', p_twitter = Some ''https://x.com/'',
                p_telegram = Some ''https://t.me/''\<rparr> Mainnet),
      Fetch (salt_request
               \<lparr>s_creator = ''0xC0FFEE'', s_name = ''Nad Cat'', s_symbol = ''NCAT'',
                s_metadataUri = Some (JStr ''ipfs://metadata'')\<rparr> Mainnet),
      ReadContract ''0xA7283d07812a02AFB7C09B60f8896bCEA3F90aCE'' ''feeConfig'' [],
      ReadContract ''0x7e78A8DE94f21804F7a17F4E8BF9EC2c872187ea'' ''getInitialBuyAmountOut''
        [100000000000000000]]"
proof -
  have p1: "SetPackedLaunch (packedLaunch (fst (packLaunchTx connected draft)))
              \<in> set (snd (packLaunchTx connected draft))"
    by (simp add: run_defs sample_defs sample_amounts cong: await_weak_cong)
  have calls: "filter nadfun_call (snd (packLaunchTx connected draft)) =
     [Fetch (image_request \<lparr>blob_type = ''image/png'', blob_bytes = ''iVBORw0KGgo=''\<rparr>
               ''image/png'' Mainnet),
      Fetch (metadata_request
               \<lparr>p_imageUri = Some (JStr ''ipfs://image''), p_name = ''Nad Cat'',
                p_symbol = ''NCAT'', p_description = ''A cat.'',
                p_website = Some ''https://www.com'', p_twitter = Some ''https://x.com/'',
                p_telegram = Some ''https://t.me/''\<rparr> Mainnet),
      Fetch (salt_request
               \<lparr>s_creator = ''0xC0FFEE'', s_name = ''Nad Cat'', s_symbol = ''NCAT'',
                s_metadataUri = Some (JStr ''ipfs://metadata'')\<rparr> Mainnet),
      ReadContract ''0xA7283d07812a02AFB7C09B60f8896bCEA3F90aCE'' ''feeConfig'' [],
      ReadContract ''0x7e78A8DE94f21804F7a17F4E8BF9EC2c872187ea'' ''getInitialBuyAmountOut''
        [100000000000000000]]"
    by (simp add: run_defs sample_defs sample_amounts cong: await_weak_cong)
  from pack_targets_mainnet [of connected draft] p1 calls
  show ?thesis
    by (simp add: monadTestnet_id_def)
qed

subsection \<open>The receipt\<close>

lemma parse_first_CurveCreate:
  "parseCurveCreateFromReceipt dec logs = first_CurveCreate dec logs"
  by (induction logs)
     (auto simp: first_CurveCreate_def decodes_as_create_def split: option.splits)

lemma parse_None_iff:
  "parseCurveCreateFromReceipt dec logs = None \<longleftrightarrow> \<not> list_ex (decodes_as_create dec) logs"
  by (induction logs) (auto simp: decodes_as_create_def split: option.splits)

subsection \<open>Effects of a submission\<close>

lemma submit_confirmed:
  assumes "writeContractAsync env w = Inr h"
      and "waitForTransactionReceipt env h = Inr logs"
  shows "submit env w =
           ([WriteContract w, SetTxHash h, Log (''Tx sent: '' @ h), WaitForTransactionReceipt h] @
            (case parseCurveCreateFromReceipt (decodeEventLog env) logs of
               Some c \<Rightarrow> [Log (''Token deployed: '' @ token c), Log (''Pool: '' @ pool c)]
             | None \<Rightarrow> [Log ''Tx confirmed. Token address not found in logs (CurveCreate).'']) @
            [SetPackedLaunch JNull], Inr ())"
  using assms
  by (simp add: submit_def await_def perform_def addToLog_def split: option.splits)

lemma submit_unconfirmed:
  assumes "writeContractAsync env w = Inr h"
      and "waitForTransactionReceipt env h = Inl e"
  shows "submit env w =
           ([WriteContract w, SetTxHash h, Log (''Tx sent: '' @ h), WaitForTransactionReceipt h],
            Inl e)"
  using assms
  by (simp add: submit_def await_def perform_def addToLog_def)

lemma submit_rejected:
  assumes "writeContractAsync env w = Inl e"
  shows "submit env w = ([WriteContract w], Inl e)"
  using assms
  by (simp add: submit_def await_def perform_def)

lemma submit_sends_once: "filter is_send (fst (submit env w)) = [WriteContract w]"
proof (cases "writeContractAsync env w")
  case (Inl e)
  then show ?thesis by (simp add: submit_rejected)
next
  case (Inr h)
  then show ?thesis
    by (cases "waitForTransactionReceipt env h")
       (simp_all add: submit_confirmed submit_unconfirmed split: option.splits)
qed

lemma fst_bigint_or_zero [simp]: "fst (bigint_or_zero env v) = []"
  by (simp add: bigint_or_zero_def split: sum.splits)

lemma launch_request_logs: "list_all is_log (fst (launch_request env s))"
  by (simp add: launch_request_def Let_def list_all_await)

lemma is_log_local: "is_log ev \<Longrightarrow> \<not> is_send ev \<and> \<not> leaves_page ev \<and> \<not> sets_packed ev"
  by (cases ev) simp_all

lemma filter_send_logs: "list_all is_log evs \<Longrightarrow> filter is_send evs = []"
  by (induction evs) (auto dest: is_log_local)

text \<open>When the guards pass and the packed transaction has its fields, a call does what
  \<open>launch_request\<close> does, then the submission.\<close>

lemma signAndLaunch_body_ready:
  assumes "truthy (packedLaunch s)" and "publicClient env" and "isConnected env"
      and "\<not> absent (address env)" and "chainId env = monadTestnet_id"
      and "\<not> dryRun (tokenForm s)"
      and "snd (launch_request env s) = Inr (Some w)"
  shows "signAndLaunch_body env s =
           (fst (launch_request env s) @ fst (submit env w), snd (submit env w))"
  using assms
  by (cases "launch_request env s"; cases "submit env w")
     (simp add: signAndLaunch_body_def await_def)

lemma signAndLaunch_sends_at_most_once:
  "length (filter is_send (snd (signAndLaunch env s))) \<le> 1"
proof -
  have body: "length (filter is_send (fst (signAndLaunch_body env s))) \<le> 1"
    using filter_send_logs [OF launch_request_logs [of env s]]
    by (auto simp: signAndLaunch_body_def fst_await submit_sends_once
        split: sum.splits option.splits)
  show ?thesis
    using body by (auto simp: signAndLaunch_def Let_def split: sum.splits)
qed

text \<open>What a call reads of the state: the in-flight flag, the packed launch and the dry
  run flag.\<close>

lemma signAndLaunch_body_reads:
  assumes "packedLaunch s' = packedLaunch s" and "dryRun (tokenForm s') = dryRun (tokenForm s)"
  shows "signAndLaunch_body env s' = signAndLaunch_body env s"
  using assms by (simp add: signAndLaunch_body_def launch_request_def)

lemma tokenForm_apply_effects [simp]: "tokenForm (apply_effects env s evs) = tokenForm s"
proof -
  have "tokenForm (foldl (apply_effect t) s evs) = tokenForm s" for t
  proof (induction evs arbitrary: s)
    case Nil
    then show ?case by simp
  next
    case (Cons ev evs)
    then show ?case by (cases ev) simp_all
  qed
  then show ?thesis
    by (simp add: apply_effects_def)
qed

lemma signAndLaunch_again:
  assumes "\<not> isMinting s"
      and "list_all (\<lambda>ev. \<not> sets_packed ev) (snd (signAndLaunch env s))"
  shows "snd (signAndLaunch env (fst (signAndLaunch env s))) = snd (signAndLaunch env s)"
proof -
  let ?s' = "fst (signAndLaunch env s)"
  have "packedLaunch ?s' = packedLaunch s"
    using assms packedLaunch_apply_effects [of "snd (signAndLaunch env s)" env s]
    by (simp add: signAndLaunch_def Let_def)
  moreover have "dryRun (tokenForm ?s') = dryRun (tokenForm s)"
    using assms(1) by (simp add: signAndLaunch_def Let_def)
  ultimately have "signAndLaunch_body env ?s' = signAndLaunch_body env s"
    by (rule signAndLaunch_body_reads)
  moreover have "\<not> isMinting ?s'"
    using assms(1) by (simp add: signAndLaunch_def Let_def)
  ultimately show ?thesis
    using assms(1) by (simp add: signAndLaunch_def Let_def)
qed

text \<open>With the dry run flag set a call signs nothing, makes no call that leaves the
  page and leaves the packed launch as it is; with the guards passed, all it does is
  log the dry run line.\<close>

lemma signAndLaunch_dry_run:
  assumes "dryRun (tokenForm s)"
  shows "list_all (\<lambda>ev. \<not> leaves_page ev \<and> \<not> sets_packed ev) (snd (signAndLaunch env s))"
    and "packedLaunch (fst (signAndLaunch env s)) = packedLaunch s"
    and "\<not> isMinting s \<Longrightarrow> \<exists>msg. snd (signAndLaunch env s) = [Log msg]"
    and "\<not> isMinting s \<Longrightarrow> truthy (packedLaunch s) \<Longrightarrow> publicClient env \<Longrightarrow>
         isConnected env \<Longrightarrow> \<not> absent (address env) \<Longrightarrow> chainId env = monadTestnet_id \<Longrightarrow>
           snd (signAndLaunch env s) = [Log ''DRY RUN enabled. Skipping signature + send.'']"
proof -
  have body: "\<exists>msg. signAndLaunch_body env s = ([Log msg], Inr ())"
    using assms by (simp add: signAndLaunch_body_def addToLog_def perform_def)
  then obtain msg where m: "signAndLaunch_body env s = ([Log msg], Inr ())"
    by blast
  show quiet: "list_all (\<lambda>ev. \<not> leaves_page ev \<and> \<not> sets_packed ev) (snd (signAndLaunch env s))"
    by (simp add: signAndLaunch_def Let_def m)
  then have "list_all (\<lambda>ev. \<not> sets_packed ev) (snd (signAndLaunch env s))"
    by (simp add: list_all_iff)
  then show "packedLaunch (fst (signAndLaunch env s)) = packedLaunch s"
    by (auto simp: signAndLaunch_def Let_def packedLaunch_apply_effects)
  show "\<exists>msg. snd (signAndLaunch env s) = [Log msg]" if "\<not> isMinting s"
    using that by (simp add: signAndLaunch_def Let_def m)
  show "snd (signAndLaunch env s) = [Log ''DRY RUN enabled. Skipping signature + send.'']"
    if "\<not> isMinting s" "truthy (packedLaunch s)" "publicClient env" "isConnected env"
       "\<not> absent (address env)" "chainId env = monadTestnet_id"
    using that assms
    by (simp add: signAndLaunch_def Let_def signAndLaunch_body_def addToLog_def perform_def)
qed

lemma launch_request_Some:
  assumes "snd (launch_request env s) = Inr (Some w)"
  shows "fst (launch_request env s) = [Log ''Requesting wallet signature...'']"
  using assms
  by (auto simp: launch_request_def Let_def fst_await snd_await
      split: if_splits sum.splits)

lemma launch_request_env:
  assumes "BigInt env' = BigInt env" and "address env' = address env"
  shows "launch_request env' s = launch_request env s"
proof -
  have b: "bigint_or_zero env' = bigint_or_zero env"
    using assms(1) by (simp add: bigint_or_zero_def fun_eq_iff)
  show ?thesis
    unfolding launch_request_def b assms(2) by (rule refl)
qed

lemma apply_effects_append:
  "apply_effects env s (evs @ evs') = apply_effects env (apply_effects env s evs) evs'"
  by (simp add: apply_effects_def)

lemma signAndLaunch_confirmed:
  assumes "\<not> isMinting s" and "truthy (packedLaunch s)" and "publicClient env"
      and "isConnected env" and "\<not> absent (address env)" and "chainId env = monadTestnet_id"
      and "\<not> dryRun (tokenForm s)"
      and "snd (launch_request env s) = Inr (Some w)"
      and "writeContractAsync env w = Inr h"
      and "waitForTransactionReceipt env h = Inr logs"
  shows "snd (signAndLaunch_body env s) = Inr ()"
    and "snd (signAndLaunch env s) =
           [Log ''Requesting wallet signature...'', WriteContract w, SetTxHash h,
            Log (''Tx sent: '' @ h), WaitForTransactionReceipt h] @
           (case parseCurveCreateFromReceipt (decodeEventLog env) logs of
              Some c \<Rightarrow> [Log (''Token deployed: '' @ token c), Log (''Pool: '' @ pool c)]
            | None \<Rightarrow> [Log ''Tx confirmed. Token address not found in logs (CurveCreate).'']) @
           [SetPackedLaunch JNull]"
    and "packedLaunch (fst (signAndLaunch env s)) = JNull"
proof -
  have body: "signAndLaunch_body env s =
      (fst (launch_request env s) @ fst (submit env w), snd (submit env w))"
    using assms(2-8) by (rule signAndLaunch_body_ready)
  note sub = submit_confirmed [OF assms(9,10)]
  show "snd (signAndLaunch_body env s) = Inr ()"
    by (simp add: body sub)
  show run: "snd (signAndLaunch env s) =
           [Log ''Requesting wallet signature...'', WriteContract w, SetTxHash h,
            Log (''Tx sent: '' @ h), WaitForTransactionReceipt h] @
           (case parseCurveCreateFromReceipt (decodeEventLog env) logs of
              Some c \<Rightarrow> [Log (''Token deployed: '' @ token c), Log (''Pool: '' @ pool c)]
            | None \<Rightarrow> [Log ''Tx confirmed. Token address not found in logs (CurveCreate).'']) @
           [SetPackedLaunch JNull]"
    using assms(1)
    by (simp add: signAndLaunch_def Let_def body sub launch_request_Some [OF assms(8)])
  define evs where "evs =
      [Log ''Requesting wallet signature...'', WriteContract w, SetTxHash h,
       Log (''Tx sent: '' @ h), WaitForTransactionReceipt h] @
      (case parseCurveCreateFromReceipt (decodeEventLog env) logs of
         Some c \<Rightarrow> [Log (''Token deployed: '' @ token c), Log (''Pool: '' @ pool c)]
       | None \<Rightarrow> [Log ''Tx confirmed. Token address not found in logs (CurveCreate).''])"
  have evs: "snd (signAndLaunch env s) = evs @ [SetPackedLaunch JNull]"
    by (simp add: run evs_def)
  have "fst (signAndLaunch env s) =
      (apply_effects env s (snd (signAndLaunch env s)))\<lparr>isMinting := False\<rparr>"
    using assms(1) by (simp add: signAndLaunch_def Let_def)
  then show "packedLaunch (fst (signAndLaunch env s)) = JNull"
    by (simp add: evs apply_effects_append) (simp add: apply_effects_def)
qed

lemma signAndLaunch_nothing_packed:
  assumes "\<not> isMinting s" and "packedLaunch s = JNull"
  shows "snd (signAndLaunch env s) = [Log ''No packed tx found. Pack the tx first.'']"
  using assms
  by (simp add: signAndLaunch_def Let_def signAndLaunch_body_def addToLog_def perform_def)

lemma signAndLaunch_unconfirmed:
  assumes "\<not> isMinting s" and "truthy (packedLaunch s)" and "publicClient env"
      and "isConnected env" and "\<not> absent (address env)" and "chainId env = monadTestnet_id"
      and "\<not> dryRun (tokenForm s)"
      and "snd (launch_request env s) = Inr (Some w)"
      and "writeContractAsync env w = Inr h"
      and "waitForTransactionReceipt env h = Inl e"
  shows "snd (signAndLaunch env s) =
           [Log ''Requesting wallet signature...'', WriteContract w, SetTxHash h,
            Log (''Tx sent: '' @ h), WaitForTransactionReceipt h,
            Log (''Launch failed: '' @ message_or_unknown e)]"
    and "packedLaunch (fst (signAndLaunch env s)) = packedLaunch s"
    and "snd (signAndLaunch env (fst (signAndLaunch env s))) = snd (signAndLaunch env s)"
proof -
  have body: "signAndLaunch_body env s =
      (fst (launch_request env s) @ fst (submit env w), snd (submit env w))"
    using assms(2-8) by (rule signAndLaunch_body_ready)
  note sub = submit_unconfirmed [OF assms(9,10)]
  show run: "snd (signAndLaunch env s) =
           [Log ''Requesting wallet signature...'', WriteContract w, SetTxHash h,
            Log (''Tx sent: '' @ h), WaitForTransactionReceipt h,
            Log (''Launch failed: '' @ message_or_unknown e)]"
    using assms(1)
    by (simp add: signAndLaunch_def Let_def body sub launch_request_Some [OF assms(8)])
  have quiet: "list_all (\<lambda>ev. \<not> sets_packed ev) (snd (signAndLaunch env s))"
    by (simp add: run)
  then show "packedLaunch (fst (signAndLaunch env s)) = packedLaunch s"
    using assms(1) by (simp add: signAndLaunch_def Let_def packedLaunch_apply_effects)
  show "snd (signAndLaunch env (fst (signAndLaunch env s))) = snd (signAndLaunch env s)"
    using assms(1) quiet by (rule signAndLaunch_again)
qed

subsection \<open>A submission of the packed draft\<close>

lemma packed_tx:
  "get_field ''tx'' (packedLaunch packed) =
     Some (JObj [(''to'', JStr ''0x6F6B8F1a20703309951a5127c45B49b1CD981A22''),
                 (''function'', JStr ''create''),
                 (''args'', JObj [(''name'', JStr ''Nad Cat''), (''symbol'', JStr ''NCAT''),
                                  (''tokenURI'', JStr ''ipfs://metadata''),
                                  (''amountOut'', JStr ''100000000000000000000''),
                                  (''salt'', JStr ''0x01''), (''actionId'', JNum 1)]),
                 (''value'', JStr ''10100000000000000000''),
                 (''valueMon'', JStr ''10.1'')])"
  by (simp add: packed_def run_defs sample_defs sample_amounts cong: await_weak_cong)

lemma packed_ready:
  "truthy (packedLaunch packed)" "\<not> isMinting packed" "\<not> dryRun (tokenForm packed)"
  by (simp_all add: packed_def run_defs sample_defs sample_amounts cong: await_weak_cong)

lemma connected_ready:
  "publicClient connected" "isConnected connected" "\<not> absent (address connected)"
  "chainId connected = monadTestnet_id"
  by (simp_all add: connected_def offline_def absent_def monadTestnet_id_def)

lemma digits:
  "example_BigInt (JStr ''10100000000000000000'') = Inr 10100000000000000000"
  "example_BigInt (JStr ''100000000000000000000'') = Inr 100000000000000000000"
  by (simp_all add: example_BigInt_def js_trim_def is_js_whitespace_def digit_of_def Let_def)

lemma packed_launch_request:
  "launch_request connected packed =
     ([Log ''Requesting wallet signature...''], Inr (Some packed_request))"
proof -
  have big: "BigInt connected = example_BigInt" and account: "address connected = Some ''0xC0FFEE''"
    by (simp_all add: connected_def offline_def)
  have v: "bigint_or_zero connected (Some (JStr ''10100000000000000000'')) =
      ([], Inr 10100000000000000000)"
    by (simp add: bigint_or_zero_def big digits ret_def)
  have a: "bigint_or_zero connected (Some (JStr ''100000000000000000000'')) =
      ([], Inr 100000000000000000000)"
    by (simp add: bigint_or_zero_def big digits ret_def)
  show ?thesis
    unfolding launch_request_def packed_tx Let_def
    by (simp add: v a account string_of_def packed_request_def obj_def NADFUN_NETWORK_def
        monadTestnet_id_def await_def ret_def addToLog_def perform_def)
qed

lemma confirming_ready:
  "publicClient (confirming logs)" "isConnected (confirming logs)"
  "\<not> absent (address (confirming logs))" "chainId (confirming logs) = monadTestnet_id"
  "writeContractAsync (confirming logs) w = Inr ''0xabc''"
  "waitForTransactionReceipt (confirming logs) h = Inr logs"
  "decodeEventLog (confirming logs) = curve_decode"
  "launch_request (confirming logs) s = launch_request connected s"
proof -
  show "launch_request (confirming logs) s = launch_request connected s"
    by (rule launch_request_env) (simp_all add: confirming_def)
qed (simp_all add: confirming_def connected_def offline_def absent_def monadTestnet_id_def)

lemma unconfirmed_ready:
  "publicClient unconfirmed" "isConnected unconfirmed"
  "\<not> absent (address unconfirmed)" "chainId unconfirmed = monadTestnet_id"
  "writeContractAsync unconfirmed w = Inr ''0xabc''"
  "waitForTransactionReceipt unconfirmed h = Inl (Error ''The request timed out.'')"
  "launch_request unconfirmed s = launch_request connected s"
proof -
  show "launch_request unconfirmed s = launch_request connected s"
    by (rule launch_request_env) (simp_all add: unconfirmed_def)
qed (simp_all add: unconfirmed_def connected_def offline_def absent_def monadTestnet_id_def)

text \<open>
  C3. \<open>parseCurveCreateFromReceipt\<close> is a total function of the logs of a receipt. It
  returns the token and the pool of the first log that decodes as a \<open>CurveCreate\<close>
  event; the logs before it, which do not decode or decode as another event, are
  skipped. It returns \<open>null\<close> exactly when no log of the receipt decodes as
  \<open>CurveCreate\<close>. When a call of \<open>signAndLaunch\<close> has sent the transaction and the receipt
  comes with no such log, the call logs \<open>Tx confirmed. Token address not found in logs
  (CurveCreate).\<close>, clears the packed launch and ends without an error: the \<open>catch\<close> is
  not entered and no \<open>Launch failed\<close> line is logged.
\<close>

theorem launch_address_not_found:
  "parseCurveCreateFromReceipt dec receipt = first_CurveCreate dec receipt \<and>
   (parseCurveCreateFromReceipt dec receipt = None \<longleftrightarrow>
      \<not> list_ex (decodes_as_create dec) receipt) \<and>
   (\<not> isMinting s \<and> truthy (packedLaunch s) \<and> publicClient env \<and> isConnected env \<and>
    \<not> absent (address env) \<and> chainId env = monadTestnet_id \<and> \<not> dryRun (tokenForm s) \<and>
    snd (launch_request env s) = Inr (Some w) \<and>
    writeContractAsync env w = Inr h \<and>
    waitForTransactionReceipt env h = Inr logs \<and>
    parseCurveCreateFromReceipt (decodeEventLog env) logs = None \<longrightarrow>
      snd (signAndLaunch_body env s) = Inr () \<and>
      snd (signAndLaunch env s) =
        [Log ''Requesting wallet signature...'', WriteContract w, SetTxHash h,
         Log (''Tx sent: '' @ h), WaitForTransactionReceipt h,
         Log ''Tx confirmed. Token address not found in logs (CurveCreate).'',
         SetPackedLaunch JNull])"
proof (intro conjI impI)
  show "parseCurveCreateFromReceipt dec receipt = first_CurveCreate dec receipt"
    by (rule parse_first_CurveCreate)
  show "parseCurveCreateFromReceipt dec receipt = None \<longleftrightarrow>
      \<not> list_ex (decodes_as_create dec) receipt"
    by (rule parse_None_iff)
next
  assume h: "\<not> isMinting s \<and> truthy (packedLaunch s) \<and> publicClient env \<and> isConnected env \<and>
    \<not> absent (address env) \<and> chainId env = monadTestnet_id \<and> \<not> dryRun (tokenForm s) \<and>
    snd (launch_request env s) = Inr (Some w) \<and>
    writeContractAsync env w = Inr h \<and>
    waitForTransactionReceipt env h = Inr logs \<and>
    parseCurveCreateFromReceipt (decodeEventLog env) logs = None"
  then have none: "parseCurveCreateFromReceipt (decodeEventLog env) logs = None"
    by simp
  from h have run:
    "snd (signAndLaunch_body env s) = Inr ()"
    "snd (signAndLaunch env s) =
           [Log ''Requesting wallet signature...'', WriteContract w, SetTxHash h,
            Log (''Tx sent: '' @ h), WaitForTransactionReceipt h] @
           (case parseCurveCreateFromReceipt (decodeEventLog env) logs of
              Some c \<Rightarrow> [Log (''Token deployed: '' @ token c), Log (''Pool: '' @ pool c)]
            | None \<Rightarrow> [Log ''Tx confirmed. Token address not found in logs (CurveCreate).'']) @
           [SetPackedLaunch JNull]"
    using signAndLaunch_confirmed [of s env w h logs] by blast+
  show "snd (signAndLaunch_body env s) = Inr ()"
    by (rule run(1))
  show "snd (signAndLaunch env s) =
        [Log ''Requesting wallet signature...'', WriteContract w, SetTxHash h,
         Log (''Tx sent: '' @ h), WaitForTransactionReceipt h,
         Log ''Tx confirmed. Token address not found in logs (CurveCreate).'',
         SetPackedLaunch JNull]"
    by (simp add: run(2) none)
qed

text \<open>A receipt with one creation log among three that the ABI does not decode, and a
  submission of the packed draft confirmed by a receipt with no creation log.\<close>

theorem launch_address_not_found_witness:
  "parseCurveCreateFromReceipt curve_decode [transfer_log, transfer_log, create_log, transfer_log] =
     Some \<lparr>token = ''0x7777'', pool = ''0x9999''\<rparr> \<and>
   parseCurveCreateFromReceipt curve_decode [transfer_log, buy_log] = None \<and>
   snd (signAndLaunch (confirming [transfer_log, buy_log]) packed) =
     [Log ''Requesting wallet signature...'', WriteContract packed_request, SetTxHash ''0xabc'',
      Log ''Tx sent: 0xabc'', WaitForTransactionReceipt ''0xabc'',
      Log ''Tx confirmed. Token address not found in logs (CurveCreate).'',
      SetPackedLaunch JNull]"
proof -
  have first: "first_CurveCreate curve_decode [transfer_log, transfer_log, create_log, transfer_log] =
      Some \<lparr>token = ''0x7777'', pool = ''0x9999''\<rparr>"
    by (simp add: first_CurveCreate_def decodes_as_create_def curve_decode_def
        transfer_log_def create_log_def)
  have none: "parseCurveCreateFromReceipt curve_decode [transfer_log, buy_log] = None"
    by (simp add: curve_decode_def transfer_log_def buy_log_def)
  have request: "snd (launch_request (confirming [transfer_log, buy_log]) packed) =
      Inr (Some packed_request)"
    by (simp add: confirming_ready packed_launch_request)
  from launch_address_not_found [of curve_decode
         "[transfer_log, transfer_log, create_log, transfer_log]" packed
         "confirming [transfer_log, buy_log]" packed_request "''0xabc''"
         "[transfer_log, buy_log]"]
       first none request packed_ready
  show ?thesis
    by (simp add: confirming_ready)
qed

text \<open>
  C4. The packed draft is submitted while the chain fails to deliver receipts. The call
  of \<open>signAndLaunch\<close> sends the packed transaction, gets its hash, fails in the wait for
  the receipt and logs the failure; the packed launch is left in place. A second call
  sends the same packed transaction again.
\<close>

theorem launch_twice_after_lost_receipt:
  "truthy (packedLaunch packed) \<and>
   snd (signAndLaunch unconfirmed packed) =
     [Log ''Requesting wallet signature...'', WriteContract packed_request, SetTxHash ''0xabc'',
      Log ''Tx sent: 0xabc'', WaitForTransactionReceipt ''0xabc'',
      Log ''Launch failed: The request timed out.''] \<and>
   packedLaunch (fst (signAndLaunch unconfirmed packed)) = packedLaunch packed \<and>
   filter is_send (snd (signAndLaunch unconfirmed (fst (signAndLaunch unconfirmed packed)))) =
     [WriteContract packed_request]"
proof -
  have request: "snd (launch_request unconfirmed packed) = Inr (Some packed_request)"
    by (simp add: unconfirmed_ready packed_launch_request)
  note run = signAndLaunch_unconfirmed [OF packed_ready(2) packed_ready(1) unconfirmed_ready(1-4)
      packed_ready(3) request unconfirmed_ready(5,6)]
  have first: "snd (signAndLaunch unconfirmed packed) =
     [Log ''Requesting wallet signature...'', WriteContract packed_request, SetTxHash ''0xabc'',
      Log ''Tx sent: 0xabc'', WaitForTransactionReceipt ''0xabc'',
      Log ''Launch failed: The request timed out.'']"
    using run(1) by (simp add: message_or_unknown_def)
  have again: "filter is_send
      (snd (signAndLaunch unconfirmed (fst (signAndLaunch unconfirmed packed)))) =
     [WriteContract packed_request]"
    by (simp add: run(3) first)
  from packed_ready(1) first run(2) again show ?thesis
    by blast
qed

subsection \<open>Persistence\<close>

lemma keys_differ: "buildLogsKey idea \<noteq> builderStateKey idea"
  by (simp add: buildLogsKey_def builderStateKey_def)

lemma strings_of_map [simp]: "strings_of (map JStr xs) = Some xs"
  by (induction xs) simp_all

lemma stored_state_persist [simp]:
  "getStoredBuilderState (persist idea s st) idea = Some (payload s)"
  by (simp add: getStoredBuilderState_def persist_def)

lemma stored_logs_persist [simp]: "stored_logs (persist idea s st) idea = Some (buildLogs s)"
  using keys_differ [of idea] by (simp add: stored_logs_def persist_def)

lemma restore_tokenForm_json:
  "restore_tokenForm (Some (tokenForm_json tf)) = Some (with_defaults tf)"
proof (cases tf)
  case (fields nm sy su de tw te we ib cl uc dr tr fp bp hp lp ba)
  show ?thesis
    by (cases ib)
       (simp_all add: fields restore_tokenForm_def tokenForm_json_def obj_def
          with_defaults_def or_else_def)
qed

lemma payload_fields:
  "get_field ''buildStep'' (payload s) = Some (JNum (buildStep s))"
  "get_field ''contractCode'' (payload s) = Some (JStr (contractCode s))"
  "get_field ''frontendPrompt'' (payload s) = Some (JStr (frontendPrompt s))"
  "get_field ''contractAddress'' (payload s) = Some (or_null (contractAddress s))"
  "get_field ''logos'' (payload s) = Some (JArr (map JStr (logos s)))"
  "get_field ''selectedLogo'' (payload s) = Some (JNum (selectedLogo s))"
  "get_field ''tokenForm'' (payload s) = Some (tokenForm_json (tokenForm s))"
  "get_field ''packedLaunch'' (payload s) = Some (packedLaunch s)"
  by (simp_all add: payload_def)

lemma restore_persist:
  "restore (persist idea s st) idea =
     Some (fresh_session (s\<lparr>tokenForm := with_defaults (tokenForm s)\<rparr>))"
proof -
  have truthy: "truthy (payload s)"
    by (simp add: payload_def)
  have address: "(case or_null (contractAddress s) of JStr v \<Rightarrow> Some v | _ \<Rightarrow> None) =
      contractAddress s"
    by (cases "contractAddress s") (simp_all add: or_null_def)
  show ?thesis
    by (simp add: restore_def truthy payload_fields restore_tokenForm_json array_or_empty_def
        address fresh_session_def)
qed

lemma with_defaults_filled:
  assumes "token_supply tf \<noteq> []" and "twitter tf \<noteq> []" and "telegram tf \<noteq> []"
      and "website tf \<noteq> []" and "initialBuyMon tf = Some v" and "v \<noteq> []"
  shows "with_defaults tf = tf"
  using assms by (simp add: with_defaults_def or_else_def)

lemma seed_form_filled:
  assumes "token_supply tf \<noteq> []" and "twitter tf \<noteq> []" and "telegram tf \<noteq> []"
      and "website tf \<noteq> []" and "initialBuyMon tf = Some v" and "v \<noteq> []"
      and "name tf \<noteq> []" and "symbol tf \<noteq> []" and "description tf \<noteq> []"
      and "beneficiaryAddress tf \<noteq> [] \<or> absent (address env)"
  shows "seed_form idea env tf = tf"
proof (cases tf)
  case (fields nm sy su de tw te we ib cl uc dr tr fp bp hp lp ba)
  from assms(10) have "or_else ba (case address env of None \<Rightarrow> [] | Some a \<Rightarrow> a) = ba"
    by (auto simp: fields or_else_def absent_def split: option.splits)
  with assms(1-9) show ?thesis
    by (simp add: fields seed_form_def) (simp add: or_else_def)
qed

lemma reopen_persist:
  "reopen buildLogoSet idea env (persist idea s st) =
     Some (fst (stage3_effect buildLogoSet idea env
                  (fresh_session (s\<lparr>tokenForm := with_defaults (tokenForm s)\<rparr>))),
           prompt_effect s @
           snd (stage3_effect buildLogoSet idea env
                  (fresh_session (s\<lparr>tokenForm := with_defaults (tokenForm s)\<rparr>))))"
  by (simp add: reopen_def restore_persist prompt_effect_def fresh_session_def)

lemma packed_fields:
  "tokenForm packed = cat_form" "buildStep packed = 3" "logos packed \<noteq> []"
  "fresh_session packed = packed"
  by (simp_all add: packed_def fresh_session_def run_defs sample_defs sample_amounts
      cong: await_weak_cong)

text \<open>
  C5. Reopening the builder for a concept after its state was persisted restores
  \<open>buildStep\<close>, \<open>contractCode\<close>, \<open>frontendPrompt\<close>, \<open>contractAddress\<close>, \<open>logos\<close>,
  \<open>selectedLogo\<close>, \<open>packedLaunch\<close>, the log lines and the form, except that an empty
  \<open>supply\<close>, \<open>twitter\<close>, \<open>telegram\<close>, \<open>website\<close> or \<open>initialBuyMon\<close> of the form comes back as
  its default. So a state whose form has these five fields filled is restored field for
  field. A re-entry at step 3 with logos in the restored state fires no generation
  call, and it leaves the restored state as it is when, besides, the name, the symbol
  and the description of the form are filled and the beneficiary address is filled or
  no wallet is connected.
\<close>

theorem persist_restore_round_trip:
  "restore (persist idea s st) idea =
     Some (fresh_session (s\<lparr>tokenForm := with_defaults (tokenForm s)\<rparr>)) \<and>
   (buildStep (fresh_session s) = buildStep s \<and> contractCode (fresh_session s) = contractCode s \<and>
    frontendPrompt (fresh_session s) = frontendPrompt s \<and>
    contractAddress (fresh_session s) = contractAddress s \<and> logos (fresh_session s) = logos s \<and>
    selectedLogo (fresh_session s) = selectedLogo s \<and> tokenForm (fresh_session s) = tokenForm s \<and>
    packedLaunch (fresh_session s) = packedLaunch s \<and> buildLogs (fresh_session s) = buildLogs s) \<and>
   (buildStep s = 3 \<and> logos s \<noteq> [] \<longrightarrow>
      map_option snd (reopen buildLogoSet idea env (persist idea s st)) = Some []) \<and>
   (token_supply (tokenForm s) \<noteq> [] \<and> twitter (tokenForm s) \<noteq> [] \<and>
    telegram (tokenForm s) \<noteq> [] \<and> website (tokenForm s) \<noteq> [] \<and>
    initialBuyMon (tokenForm s) = Some v \<and> v \<noteq> [] \<longrightarrow>
      restore (persist idea s st) idea = Some (fresh_session s) \<and>
      (buildStep s = 3 \<and> logos s \<noteq> [] \<and> name (tokenForm s) \<noteq> [] \<and>
       symbol (tokenForm s) \<noteq> [] \<and> description (tokenForm s) \<noteq> [] \<and>
       (beneficiaryAddress (tokenForm s) \<noteq> [] \<or> absent (address env)) \<longrightarrow>
         reopen buildLogoSet idea env (persist idea s st) = Some (fresh_session s, [])))"
proof (intro conjI impI)
  show "restore (persist idea s st) idea =
     Some (fresh_session (s\<lparr>tokenForm := with_defaults (tokenForm s)\<rparr>))"
    by (rule restore_persist)
next
  assume "buildStep s = 3 \<and> logos s \<noteq> []"
  then show "map_option snd (reopen buildLogoSet idea env (persist idea s st)) = Some []"
    by (simp add: reopen_persist prompt_effect_def stage3_effect_def fresh_session_def)
next
  assume filled: "token_supply (tokenForm s) \<noteq> [] \<and> twitter (tokenForm s) \<noteq> [] \<and>
    telegram (tokenForm s) \<noteq> [] \<and> website (tokenForm s) \<noteq> [] \<and>
    initialBuyMon (tokenForm s) = Some v \<and> v \<noteq> []"
  then have same: "with_defaults (tokenForm s) = tokenForm s"
    using with_defaults_filled [of "tokenForm s" v] by blast
  then show restored: "restore (persist idea s st) idea = Some (fresh_session s)"
    by (simp add: restore_persist)
  assume step: "buildStep s = 3 \<and> logos s \<noteq> [] \<and> name (tokenForm s) \<noteq> [] \<and>
       symbol (tokenForm s) \<noteq> [] \<and> description (tokenForm s) \<noteq> [] \<and>
       (beneficiaryAddress (tokenForm s) \<noteq> [] \<or> absent (address env))"
  with filled have seed: "seed_form idea env (tokenForm s) = tokenForm s"
    using seed_form_filled [of "tokenForm s" v env idea] by blast
  from step show "reopen buildLogoSet idea env (persist idea s st) = Some (fresh_session s, [])"
    by (simp add: reopen_persist same prompt_effect_def stage3_effect_def fresh_session_def seed)
qed (simp_all add: fresh_session_def)

text \<open>The packed draft, persisted and reopened with the wallet connected.\<close>

theorem persist_restore_round_trip_witness:
  "restore (persist cat packed no_items) cat = Some packed \<and>
   reopen logo_set cat connected (persist cat packed no_items) = Some (packed, [])"
proof -
  have form: "token_supply (tokenForm packed) \<noteq> [] \<and> twitter (tokenForm packed) \<noteq> [] \<and>
    telegram (tokenForm packed) \<noteq> [] \<and> website (tokenForm packed) \<noteq> [] \<and>
    initialBuyMon (tokenForm packed) = Some ''0.1'' \<and> ''0.1'' \<noteq> []"
    and filled: "name (tokenForm packed) \<noteq> [] \<and> symbol (tokenForm packed) \<noteq> [] \<and>
    description (tokenForm packed) \<noteq> [] \<and> beneficiaryAddress (tokenForm packed) \<noteq> []"
    by (simp_all add: packed_fields(1) cat_form_def)
  from persist_restore_round_trip [of cat packed no_items logo_set connected "''0.1''"]
       form filled packed_fields(2,3)
  have "restore (persist cat packed no_items) cat = Some (fresh_session packed) \<and>
   reopen logo_set cat connected (persist cat packed no_items) = Some (fresh_session packed, [])"
    by blast
  then show ?thesis
    by (simp add: packed_fields(4))
qed

text \<open>The draft with the Twitter field cleared comes back with the default in it.\<close>

theorem round_trip_cleared_field_counterexample:
  "twitter (tokenForm cleared) = [] \<and>
   restore (persist cat cleared no_items) cat = Some draft \<and>
   twitter (tokenForm draft) = ''https://x.com/''"
  by (simp add: restore_persist)
     (simp add: cleared_def draft_def cat_form_def fresh_session_def with_defaults_def
        or_else_def)

subsection \<open>The reset\<close>

lemma reset_packedLaunch:
  "packedLaunch (fst (handleResetCache env idea s st)) = packedLaunch s"
  by (simp add: handleResetCache_def)

lemma reset_removes:
  "snd (handleResetCache env idea s st) (builderStateKey idea) = None"
  "snd (handleResetCache env idea s st) (buildLogsKey idea) = None"
  using keys_differ [of idea] by (simp_all add: handleResetCache_def)

lemma reset_and_persist_stores:
  "snd (reset_and_persist env idea s st) (builderStateKey idea) =
     Some (JSON_text (payload (fst (handleResetCache env idea s st))))"
  "snd (reset_and_persist env idea s st) (buildLogsKey idea) = Some (JSON_text (JArr []))"
  using keys_differ [of idea]
  by (simp_all add: reset_and_persist_def Let_def persist_def handleResetCache_def)

lemma reset_and_persist_restored:
  "map_option packedLaunch (restore (snd (reset_and_persist env idea s st)) idea) =
     Some (packedLaunch s)"
  by (simp add: reset_and_persist_def Let_def restore_persist fresh_session_def
      reset_packedLaunch)

lemma restore_nothing_stored: "restore no_items idea = Some initial_state"
  by (simp add: restore_def getStoredBuilderState_def no_items_def array_or_empty_def
      restore_tokenForm_def stored_logs_def initial_state_def)

text \<open>
  C6. The packed draft is reset. \<open>handleResetCache\<close> removes both keys of the concept and
  sets the step to 0, but the packed launch stays in the state, where a builder opened
  with nothing stored has \<open>null\<close>; the form gets empty \<open>twitter\<close>, \<open>telegram\<close> and \<open>website\<close>
  fields and no \<open>initialBuyMon\<close>, where the defaults are the three links and \<open>0.1\<close>. The
  persist effects that run on the new state write it back under both keys, and a later
  session restores the packed launch.
\<close>

theorem reset_keeps_packed_launch:
  "restore no_items cat = Some initial_state \<and>
   packedLaunch initial_state = JNull \<and>
   truthy (packedLaunch packed) \<and>
   snd (handleResetCache connected cat packed packed_store) (builderStateKey cat) = None \<and>
   snd (handleResetCache connected cat packed packed_store) (buildLogsKey cat) = None \<and>
   buildStep (fst (handleResetCache connected cat packed packed_store)) = 0 \<and>
   packedLaunch (fst (handleResetCache connected cat packed packed_store)) = packedLaunch packed \<and>
   tokenForm (fst (handleResetCache connected cat packed packed_store)) =
     (tokenForm initial_state)\<lparr>twitter := [], telegram := [], website := [],
        initialBuyMon := None, beneficiaryAddress := ''0xC0FFEE''\<rparr> \<and>
   snd (reset_and_persist connected cat packed packed_store) (builderStateKey cat) =
     Some (JSON_text (payload (fst (handleResetCache connected cat packed packed_store)))) \<and>
   map_option packedLaunch
     (restore (snd (reset_and_persist connected cat packed packed_store)) cat) =
     Some (packedLaunch packed)"
proof -
  have form: "tokenForm (fst (handleResetCache connected cat packed packed_store)) =
     (tokenForm initial_state)\<lparr>twitter := [], telegram := [], website := [],
        initialBuyMon := None, beneficiaryAddress := ''0xC0FFEE''\<rparr>"
    by (simp add: handleResetCache_def reset_form_def initial_state_def connected_def
        offline_def)
  have step: "buildStep (fst (handleResetCache connected cat packed packed_store)) = 0"
    by (simp add: handleResetCache_def)
  have null: "packedLaunch initial_state = JNull"
    by (simp add: initial_state_def)
  from restore_nothing_stored [of cat] null packed_ready(1) reset_removes [of connected cat packed
      packed_store] step reset_packedLaunch [of connected cat packed packed_store] form
    reset_and_persist_stores(1) [of connected cat packed packed_store]
    reset_and_persist_restored [of connected cat packed packed_store]
  show ?thesis
    by blast
qed

end
